theory Spec2Isabelle
  imports Complex_Main
begin

section \<open>Common conventions\<close>

text \<open>
  Tensor entries are float32 values in the program; here they are real (and complex)
  numbers, so every statement below is about exact arithmetic. Exceptions of the Python
  program are values of the type \<open>error\<close>; a function that can raise returns
  \<open>error + 'a\<close> with \<open>Inl\<close> for the exception.
\<close>

datatype error =
    AttributeError
  | UnboundLocalError
  | ZeroDivisionError
  | AssertionError
  | IndexError
  | InvalidArgumentError
  | ValueError

section \<open>utils/spectral.py\<close>

subsection \<open>Library operations used by the transforms\<close>

text \<open>
  The TensorFlow signal operations, the mel filterbank, the pseudo inverse and librosa's
  Griffin-Lim are not code of the repository: they are the fields of a record the
  transforms take as an argument. \<open>griffinlim\<close> is called by the source with neither
  \<open>init\<close> nor \<open>random_state\<close>, so it draws its initial phase from NumPy's global
  generator: it takes the generator's state and returns the new one.
\<close>

type_synonym rng_state = nat

record signal_lib =
  signal_stft :: "real list \<Rightarrow> nat \<Rightarrow> nat \<Rightarrow> complex list list"
  signal_inverse_stft :: "complex list list \<Rightarrow> nat \<Rightarrow> nat \<Rightarrow> real list"
  linear_to_mel_weight_matrix :: "nat \<Rightarrow> nat \<Rightarrow> real \<Rightarrow> real \<Rightarrow> real \<Rightarrow> real list list"
  linalg_pinv :: "real list list \<Rightarrow> real list list"
  griffinlim :: "rng_state \<Rightarrow> real list list \<Rightarrow> nat \<Rightarrow> nat \<Rightarrow> nat \<Rightarrow> real list \<times> rng_state"

definition EPSILON :: real where
  "EPSILON = 1 / 1000000"

definition SAMPLE_RATE :: real where
  "SAMPLE_RATE = 16000"

text \<open>\<open>x % m\<close> on floats (Python, NumPy and TensorFlow alike): the floored remainder.\<close>

definition floormod :: "real \<Rightarrow> real \<Rightarrow> real" where
  "floormod x m = x - m * of_int \<lfloor>x / m\<rfloor>"

text \<open>
  A batch is a list of examples, an example a list of frames, a frame a list of bins.
  \<open>last_dim\<close> is \<open>shape[-1]\<close> of such a rank-3 array, read off its first frame (an array
  without any frame does not record the length of its last axis).
\<close>

definition last_dim :: "'a list list list \<Rightarrow> nat" where
  "last_dim t = (case concat t of [] \<Rightarrow> 0 | r # _ \<Rightarrow> length r)"

definition map3 :: "('a \<Rightarrow> 'b) \<Rightarrow> 'a list list list \<Rightarrow> 'b list list list" where
  "map3 f t = map (map (map f)) t"

text \<open>
  \<open>tf.tensordot(x, w, 1)\<close>: the last axis of \<open>x\<close> is contracted with the first axis of
  the matrix \<open>w\<close>; the sizes must agree.
\<close>

definition row_times_matrix :: "real list \<Rightarrow> real list list \<Rightarrow> real list" where
  "row_times_matrix r w = map (\<lambda>col. sum_list (map2 (*) r col)) (transpose w)"

definition tensordot :: "real list list list \<Rightarrow> real list list \<Rightarrow> error + real list list list" where
  "tensordot x w =
     (if list_all (list_all (\<lambda>r. length r = length w)) x
      then Inr (map (map (\<lambda>r. row_times_matrix r w)) x)
      else Inl InvalidArgumentError)"

definition linear_to_mel_scale ::
  "signal_lib \<Rightarrow> real list list list \<Rightarrow> nat \<Rightarrow> real \<Rightarrow> real \<Rightarrow> error + real list list list" where
  "linear_to_mel_scale lib linear_scale_in n_mel_bins mel_lower_hertz_edge mel_upper_hertz_edge =
     tensordot linear_scale_in
       (linear_to_mel_weight_matrix lib n_mel_bins (last_dim linear_scale_in) SAMPLE_RATE
          mel_lower_hertz_edge mel_upper_hertz_edge)"

definition mel_to_linear_scale ::
  "signal_lib \<Rightarrow> real list list list \<Rightarrow> nat \<Rightarrow> real \<Rightarrow> real \<Rightarrow> error + real list list list" where
  "mel_to_linear_scale lib mel_scale_in n_stft_bins mel_lower_hertz_edge mel_upper_hertz_edge =
     tensordot mel_scale_in
       (linalg_pinv lib
          (linear_to_mel_weight_matrix lib (last_dim mel_scale_in) n_stft_bins SAMPLE_RATE
             mel_lower_hertz_edge mel_upper_hertz_edge))"

text \<open>\<open>n_mel_bins\<close> is \<open>None\<close> or an integer; \<open>if n_mel_bins:\<close> is false for \<open>None\<close> and for 0.\<close>

definition truthy_bins :: "nat option \<Rightarrow> bool" where
  "truthy_bins n = (case n of None \<Rightarrow> False | Some k \<Rightarrow> k \<noteq> 0)"

text \<open>The waveform argument has shape [time] or [batch, time].\<close>

datatype waveform_arg = Wave1 "real list" | Wave2 "real list list"

definition batch_of_waveform :: "waveform_arg \<Rightarrow> real list list" where
  "batch_of_waveform w = (case w of Wave1 v \<Rightarrow> [v] | Wave2 m \<Rightarrow> m)"

text \<open>\<open>tf.pad(x, [[0, 0], [0, 0], [0, 1]])\<close>: one zero appended to every frame.\<close>

definition pad_nyquist :: "'a::zero list list list \<Rightarrow> 'a list list list" where
  "pad_nyquist t = map (map (\<lambda>r. r @ [0])) t"

text \<open>\<open>tf.concat([tf.expand_dims(a, 3), tf.expand_dims(b, 3)], axis=-1)\<close>\<close>

definition stack_channels ::
  "real list list list \<Rightarrow> real list list list \<Rightarrow> real list list list list" where
  "stack_channels a b = map2 (map2 (map2 (\<lambda>x y. [x, y]))) a b"

text \<open>\<open>t[:, :, :, c]\<close>, for an array whose last axis has more than \<open>c\<close> entries.\<close>

definition channel :: "nat \<Rightarrow> real list list list list \<Rightarrow> real list list list" where
  "channel c t = map3 (\<lambda>e. e ! c) t"

definition has_channels :: "nat \<Rightarrow> real list list list list \<Rightarrow> bool" where
  "has_channels n t = list_all (list_all (list_all (\<lambda>e. n \<le> length e))) t"

definition bind_err :: "error + 'a \<Rightarrow> ('a \<Rightarrow> error + 'b) \<Rightarrow> error + 'b" where
  "bind_err r f = (case r of Inl e \<Rightarrow> Inl e | Inr x \<Rightarrow> f x)"

subsection \<open>waveform_2_stft and stft_2_waveform\<close>

definition waveform_2_stft ::
  "signal_lib \<Rightarrow> waveform_arg \<Rightarrow> nat \<Rightarrow> nat \<Rightarrow> nat option \<Rightarrow> real \<Rightarrow> real
     \<Rightarrow> error + real list list list list" where
  "waveform_2_stft lib waveform frame_length frame_step n_mel_bins mel_lower_hertz_edge
       mel_upper_hertz_edge =
     (let stft = map (\<lambda>x. signal_stft lib x frame_length frame_step) (batch_of_waveform waveform);
          re_part = map (map (\<lambda>bins. butlast (map Re bins))) stft;
          img = map (map (\<lambda>bins. butlast (map Im bins))) stft
      in if truthy_bins n_mel_bins
         then bind_err (linear_to_mel_scale lib re_part (the n_mel_bins) mel_lower_hertz_edge
                          mel_upper_hertz_edge) (\<lambda>re_part'.
              bind_err (linear_to_mel_scale lib img (the n_mel_bins) mel_lower_hertz_edge
                          mel_upper_hertz_edge) (\<lambda>img'.
              Inr (stack_channels re_part' img')))
         else Inr (stack_channels re_part img))"

text \<open>The stft argument has shape [time, frequency, 2] or [batch, time, frequency, 2].\<close>

datatype spec_arg = Spec3 "real list list list" | Spec4 "real list list list list"

definition batch_of_spec :: "spec_arg \<Rightarrow> real list list list list" where
  "batch_of_spec s = (case s of Spec3 m \<Rightarrow> [m] | Spec4 t \<Rightarrow> t)"

text \<open>
  \<open>tf.signal.inverse_stft\<close> of \<open>tf.complex(re, im)\<close>, one example at a time, with the
  synthesis window \<open>tf.signal.inverse_stft_window_fn(frame_step, WINDOW_FN)\<close>.
\<close>

definition invert_stft ::
  "signal_lib \<Rightarrow> real list list list \<Rightarrow> real list list list \<Rightarrow> nat \<Rightarrow> nat \<Rightarrow> real list list" where
  "invert_stft lib re_part im_part frame_length frame_step =
     map (\<lambda>(re, im). signal_inverse_stft lib (map2 (map2 Complex) re im) frame_length frame_step)
       (zip re_part im_part)"

definition stft_2_waveform ::
  "signal_lib \<Rightarrow> spec_arg \<Rightarrow> nat \<Rightarrow> nat \<Rightarrow> nat option \<Rightarrow> real \<Rightarrow> real
     \<Rightarrow> error + real list list" where
  "stft_2_waveform lib stft frame_length frame_step n_mel_bins mel_lower_hertz_edge
       mel_upper_hertz_edge =
     (if \<not> has_channels 2 (batch_of_spec stft) then Inl InvalidArgumentError
      else
        let re_part = channel 0 (batch_of_spec stft);
            img = channel 1 (batch_of_spec stft)
        in if truthy_bins n_mel_bins
           then bind_err (mel_to_linear_scale lib re_part (frame_length div 2)
                            mel_lower_hertz_edge mel_upper_hertz_edge) (\<lambda>re_part'.
                bind_err (mel_to_linear_scale lib img (frame_length div 2)
                            mel_lower_hertz_edge mel_upper_hertz_edge) (\<lambda>img'.
                Inr (invert_stft lib (pad_nyquist re_part') (pad_nyquist img')
                       frame_length frame_step)))
           else Inr (invert_stft lib (pad_nyquist re_part) (pad_nyquist img)
                       frame_length frame_step))"

subsection \<open>waveform_2_spectogram and waveform_2_magnitude\<close>

text \<open>
  \<open>np.unwrap\<close> with its default arguments, along the last axis: a jump of at least
  \<open>pi\<close> between neighbours is replaced by its complement modulo \<open>2 * pi\<close>. The
  arguments of \<open>unwrap_from\<close> are the previous entry and the correction so far.
\<close>

fun unwrap_from :: "real \<Rightarrow> real \<Rightarrow> real list \<Rightarrow> real list" where
  "unwrap_from prev corr [] = []"
| "unwrap_from prev corr (x # xs) =
     (let dd = x - prev;
          ddmod0 = floormod (dd + pi) (2 * pi) - pi;
          ddmod = (if ddmod0 = - pi \<and> dd > 0 then pi else ddmod0);
          ph_correct = (if \<bar>dd\<bar> < pi then 0 else ddmod - dd);
          corr' = corr + ph_correct
      in (x + corr') # unwrap_from x corr' xs)"

definition np_unwrap :: "real list \<Rightarrow> real list" where
  "np_unwrap p = (case p of [] \<Rightarrow> [] | x # xs \<Rightarrow> x # unwrap_from x 0 xs)"

text \<open>\<open>np.diff(p, axis=-2)\<close> of one example: each frame minus the frame before it.\<close>

definition np_diff_frames :: "real list list \<Rightarrow> real list list" where
  "np_diff_frames p = map2 (map2 (-)) (tl p) p"

text \<open>
  \<open>np.concatenate([np.expand_dims(phase[:, 0, :], axis=-2), np.diff(phase, axis=-2)],
  axis=-2)\<close>: indexing frame 0 raises when there is no frame.
\<close>

definition first_frame_then_diff :: "real list list list \<Rightarrow> error + real list list list" where
  "first_frame_then_diff phase =
     (if list_ex (\<lambda>p. p = []) phase then Inl IndexError
      else Inr (map (\<lambda>p. hd p # np_diff_frames p) phase))"

definition waveform_2_spectogram ::
  "signal_lib \<Rightarrow> waveform_arg \<Rightarrow> nat \<Rightarrow> nat \<Rightarrow> bool \<Rightarrow> bool \<Rightarrow> nat option \<Rightarrow> real \<Rightarrow> real
     \<Rightarrow> error + real list list list list" where
  "waveform_2_spectogram lib waveform frame_length frame_step log_magnitude
       instantaneous_frequency n_mel_bins mel_lower_hertz_edge mel_upper_hertz_edge =
     (let stft = map (\<lambda>x. signal_stft lib x frame_length frame_step) (batch_of_waveform waveform);
          magnitude = map (map (\<lambda>bins. butlast (map cmod bins))) stft;
          phase = map (map (\<lambda>bins. butlast (map Arg bins))) stft
      in bind_err
           (if truthy_bins n_mel_bins
            then bind_err (linear_to_mel_scale lib magnitude (the n_mel_bins)
                             mel_lower_hertz_edge mel_upper_hertz_edge) (\<lambda>magnitude'.
                 bind_err (linear_to_mel_scale lib phase (the n_mel_bins)
                             mel_lower_hertz_edge mel_upper_hertz_edge) (\<lambda>phase'.
                 Inr (magnitude', phase')))
            else Inr (magnitude, phase))
           (\<lambda>(magnitude, phase).
              let magnitude = (if log_magnitude then map3 (\<lambda>m. ln (m + EPSILON)) magnitude
                               else magnitude)
              in bind_err
                   (if instantaneous_frequency
                    then first_frame_then_diff (map (map np_unwrap) phase)
                    else Inr phase)
                   (\<lambda>phase. Inr (stack_channels magnitude phase))))"

text \<open>
  \<open>waveform_2_magnitude\<close> has no \<open>instantaneous_frequency\<close> parameter and passes none,
  so the spectogram is computed with that parameter at its default, \<open>True\<close>.
\<close>

definition waveform_2_magnitude ::
  "signal_lib \<Rightarrow> waveform_arg \<Rightarrow> nat \<Rightarrow> nat \<Rightarrow> bool \<Rightarrow> nat option \<Rightarrow> real \<Rightarrow> real
     \<Rightarrow> error + real list list list" where
  "waveform_2_magnitude lib waveform frame_length frame_step log_magnitude n_mel_bins
       mel_lower_hertz_edge mel_upper_hertz_edge =
     bind_err
       (waveform_2_spectogram lib waveform frame_length frame_step log_magnitude True
          n_mel_bins mel_lower_hertz_edge mel_upper_hertz_edge)
       (\<lambda>spectogram. Inr (channel 0 spectogram))"

subsection \<open>magnitude_2_waveform\<close>





subsection \<open>spectogram_2_waveform\<close>

text \<open>\<open>tf.cumsum(phase, axis=-2)\<close> of one example: the running sum of its frames.\<close>

fun cumsum_from :: "real list \<Rightarrow> real list list \<Rightarrow> real list list" where
  "cumsum_from acc [] = []"
| "cumsum_from acc (r # rs) = (let a = map2 (+) acc r in a # cumsum_from a rs)"

definition cumsum_frames :: "real list list \<Rightarrow> real list list" where
  "cumsum_frames p = (case p of [] \<Rightarrow> [] | r # rs \<Rightarrow> r # cumsum_from r rs)"

text \<open>
  The two lines of the \<open>instantaneous_frequency\<close> branch:
  \<open>phase = tf.cumsum(phase, axis=-2)\<close> and
  \<open>phase = (phase + np.pi) % (2 * np.pi) - np.pi\<close>.
\<close>

definition recover_phase :: "real list list list \<Rightarrow> real list list list" where
  "recover_phase phase =
     map3 (\<lambda>p. floormod (p + pi) (2 * pi) - pi) (map cumsum_frames phase)"

definition spectogram_2_waveform ::
  "signal_lib \<Rightarrow> spec_arg \<Rightarrow> nat \<Rightarrow> nat \<Rightarrow> bool \<Rightarrow> bool \<Rightarrow> nat option \<Rightarrow> real \<Rightarrow> real
     \<Rightarrow> error + real list list" where
  "spectogram_2_waveform lib spectogram frame_length frame_step log_magnitude
       instantaneous_frequency n_mel_bins mel_lower_hertz_edge mel_upper_hertz_edge =
     (if \<not> has_channels 2 (batch_of_spec spectogram) then Inl InvalidArgumentError
      else
        let magnitude = channel 0 (batch_of_spec spectogram);
            phase = channel 1 (batch_of_spec spectogram)
        in bind_err
             (if truthy_bins n_mel_bins
              then bind_err (mel_to_linear_scale lib magnitude (frame_length div 2)
                               mel_lower_hertz_edge mel_upper_hertz_edge) (\<lambda>magnitude'.
                   bind_err (mel_to_linear_scale lib phase (frame_length div 2)
                               mel_lower_hertz_edge mel_upper_hertz_edge) (\<lambda>phase'.
                   Inr (magnitude', phase')))
              else Inr (magnitude, phase))
             (\<lambda>(magnitude, phase).
                let magnitude = (if log_magnitude then map3 (\<lambda>m. exp m - EPSILON) magnitude
                                 else magnitude);
                    phase = (if instantaneous_frequency then recover_phase phase else phase);
                    magnitude = pad_nyquist magnitude;
                    phase = pad_nyquist phase;
                    re_part = map2 (map2 (map2 (\<lambda>m p. m * cos p))) magnitude phase;
                    img = map2 (map2 (map2 (\<lambda>m p. m * sin p))) magnitude phase
                in Inr (invert_stft lib re_part img frame_length frame_step)))"

text \<open>Two rank-3 arrays have the same shape.\<close>

definition shape_eq :: "'a list list list \<Rightarrow> 'b list list list \<Rightarrow> bool" where
  "shape_eq a b = list_all2 (list_all2 (\<lambda>x y. length x = length y)) a b"

text \<open>
  The magnitude alone, as \<open>waveform_2_spectogram\<close> computes it before it is stacked with
  the phase: the absolute value of the truncated STFT, on the mel scale and as a logarithm
  when asked for.
\<close>

definition magnitude_only ::
  "signal_lib \<Rightarrow> waveform_arg \<Rightarrow> nat \<Rightarrow> nat \<Rightarrow> bool \<Rightarrow> nat option \<Rightarrow> real \<Rightarrow> real
     \<Rightarrow> error + real list list list" where
  "magnitude_only lib waveform frame_length frame_step log_magnitude n_mel_bins
       mel_lower_hertz_edge mel_upper_hertz_edge =
     (let stft = map (\<lambda>x. signal_stft lib x frame_length frame_step) (batch_of_waveform waveform);
          magnitude = map (map (\<lambda>bins. butlast (map cmod bins))) stft
      in bind_err
           (if truthy_bins n_mel_bins
            then linear_to_mel_scale lib magnitude (the n_mel_bins)
                   mel_lower_hertz_edge mel_upper_hertz_edge
            else Inr magnitude)
           (\<lambda>magnitude.
              Inr (if log_magnitude then map3 (\<lambda>m. ln (m + EPSILON)) magnitude
                   else magnitude)))"

text \<open>Every frame of every STFT the library returns for the batch has the same number of bins.\<close>

definition rectangular_stft :: "signal_lib \<Rightarrow> waveform_arg \<Rightarrow> nat \<Rightarrow> nat \<Rightarrow> bool" where
  "rectangular_stft lib waveform frame_length frame_step =
     list_all (\<lambda>x. list_all (\<lambda>fr. length fr = length (hd (signal_stft lib x frame_length frame_step)))
                     (signal_stft lib x frame_length frame_step))
       (batch_of_waveform waveform)"

section \<open>models/WGAN.py\<close>

subsection \<open>Tensors\<close>

text \<open>
  A tensor is its shape and its entries in row-major order; it is \<open>valid\<close> when the
  number of entries is the product of the shape. Axis 0 is the batch axis.
\<close>

record tensor =
  shape :: "nat list"
  data :: "real list"

definition valid :: "tensor \<Rightarrow> bool" where
  "valid t = (length (data t) = prod_list (shape t))"

definition tmap :: "(real \<Rightarrow> real) \<Rightarrow> tensor \<Rightarrow> tensor" where
  "tmap f t = t\<lparr>data := map f (data t)\<rparr>"

text \<open>
  \<open>tf.reshape(t, dims)\<close>: at most one entry of \<open>dims\<close> is \<open>-1\<close> and stands for the
  size that makes the number of entries fit.
\<close>

definition resolve_shape :: "int list \<Rightarrow> nat \<Rightarrow> error + nat list" where
  "resolve_shape dims n =
     (let known = prod_list (map nat (filter (\<lambda>d. d \<noteq> - 1) dims))
      in if list_ex (\<lambda>d. d < - 1) dims \<or> 1 < length (filter (\<lambda>d. d = - 1) dims)
         then Inl InvalidArgumentError
         else if list_ex (\<lambda>d. d = - 1) dims
         then (if known = 0 \<or> n mod known \<noteq> 0 then Inl InvalidArgumentError
               else Inr (map (\<lambda>d. if d = - 1 then n div known else nat d) dims))
         else (if known = n then Inr (map nat dims) else Inl InvalidArgumentError))"

definition reshape :: "tensor \<Rightarrow> int list \<Rightarrow> error + tensor" where
  "reshape t dims =
     (case resolve_shape dims (length (data t)) of
        Inl e \<Rightarrow> Inl e
      | Inr s \<Rightarrow> Inr (t\<lparr>shape := s\<rparr>))"

text \<open>\<open>t.shape[0]\<close> and \<open>t.shape[-1]\<close>: IndexError for a tensor of rank 0.\<close>

definition shape_first :: "tensor \<Rightarrow> error + nat" where
  "shape_first t = (case shape t of [] \<Rightarrow> Inl IndexError | d # _ \<Rightarrow> Inr d)"

definition shape_last :: "tensor \<Rightarrow> error + nat" where
  "shape_last t = (if shape t = [] then Inl IndexError else Inr (last (shape t)))"

text \<open>
  Broadcasting of an elementwise binary operation: the shapes are aligned at their last
  axes; two sizes fit when they are equal or one of them is 1. \<open>broadcast_dims\<close> works on
  the reversed shapes. \<open>bidx s out i\<close> is the position, in an operand of shape \<open>s\<close>
  (already padded with leading ones to the rank of \<open>out\<close>), of the entry that goes with
  position \<open>i\<close> of the result.
\<close>

fun broadcast_dims :: "nat list \<Rightarrow> nat list \<Rightarrow> nat list option" where
  "broadcast_dims [] ys = Some ys"
| "broadcast_dims (x # xs) [] = Some (x # xs)"
| "broadcast_dims (x # xs) (y # ys) =
     (if x = y \<or> y = 1 then map_option ((#) x) (broadcast_dims xs ys)
      else if x = 1 then map_option ((#) y) (broadcast_dims xs ys)
      else None)"

definition broadcast_shape :: "nat list \<Rightarrow> nat list \<Rightarrow> nat list option" where
  "broadcast_shape a b = map_option rev (broadcast_dims (rev a) (rev b))"

definition pad_rank :: "nat \<Rightarrow> nat list \<Rightarrow> nat list" where
  "pad_rank r s = replicate (r - length s) 1 @ s"

fun bidx :: "nat list \<Rightarrow> nat list \<Rightarrow> nat \<Rightarrow> nat" where
  "bidx (d # ds) (e # es) i =
     (if d = 1 then 0 else i div prod_list es) * prod_list ds + bidx ds es (i mod prod_list es)"
| "bidx ds es i = 0"

definition tf_binop :: "(real \<Rightarrow> real \<Rightarrow> real) \<Rightarrow> tensor \<Rightarrow> tensor \<Rightarrow> error + tensor" where
  "tf_binop f a b =
     (case broadcast_shape (shape a) (shape b) of
        None \<Rightarrow> Inl InvalidArgumentError
      | Some out \<Rightarrow>
          Inr \<lparr> shape = out,
                data = map (\<lambda>i. f (data a ! bidx (pad_rank (length out) (shape a)) out i)
                                   (data b ! bidx (pad_rank (length out) (shape b)) out i))
                         [0..<prod_list out] \<rparr>)"

text \<open>
  \<open>tf.reduce_sum(t, axis=axes)\<close>: the axes are summed away one at a time, the last one
  first, so that the numbers of the remaining ones do not move.
\<close>

definition reduce_axis :: "nat \<Rightarrow> tensor \<Rightarrow> tensor" where
  "reduce_axis a t =
     (let n = shape t ! a;
          inner = prod_list (drop (Suc a) (shape t));
          outer = prod_list (take a (shape t))
      in \<lparr> shape = take a (shape t) @ drop (Suc a) (shape t),
            data = map (\<lambda>i. sum_list (map (\<lambda>j. data t ! ((i div inner) * n * inner + j * inner
                                                           + i mod inner)) [0..<n]))
                     [0..<outer * inner] \<rparr>)"

definition reduce_sum :: "tensor \<Rightarrow> nat list \<Rightarrow> error + tensor" where
  "reduce_sum t axes =
     (if list_ex (\<lambda>a. length (shape t) \<le> a) axes \<or> \<not> distinct axes
      then Inl InvalidArgumentError
      else Inr (fold reduce_axis (rev (sort axes)) t))"

text \<open>
  \<open>tf.reduce_mean(t)\<close> over all entries. The mean of no entry is NaN, which is the value
  \<open>None\<close> of a loss; arithmetic on losses propagates it.
\<close>

type_synonym loss = "real option"

definition reduce_mean :: "tensor \<Rightarrow> loss" where
  "reduce_mean t =
     (if data t = [] then None else Some (sum_list (data t) / real (length (data t))))"

definition loss_op :: "(real \<Rightarrow> real \<Rightarrow> real) \<Rightarrow> loss \<Rightarrow> loss \<Rightarrow> loss" where
  "loss_op f a b = (case a of None \<Rightarrow> None | Some x \<Rightarrow> (case b of None \<Rightarrow> None | Some y \<Rightarrow> Some (f x y)))"

subsection \<open>The default loss\<close>

text \<open>
  What \<open>_compute_losses\<close> reads of its argument \<open>model\<close>: the shape of the
  discriminator's input, and the discriminator, of which it uses only the gradient that
  the tape returns for \<open>t.gradient(d_interpolated, [interpolated])[0]\<close>. Automatic
  differentiation is TensorFlow's; the gradient is a function given with the model, and
  it is \<open>None\<close> when the discriminator's output does not depend on its input.
\<close>

record loss_model =
  input_gradient :: "tensor \<Rightarrow> tensor option"
  model_d_in_data_shape :: "int list"

definition compute_losses :: "loss_model \<Rightarrow> tensor \<Rightarrow> tensor \<Rightarrow> tensor \<Rightarrow> error + loss \<times> loss" where
  "compute_losses model d_real d_fake interpolated =
     (let wasserstein_distance = loss_op (-) (reduce_mean d_real) (reduce_mean d_fake)
      in case input_gradient model interpolated of
           None \<Rightarrow> Inl ValueError
         | Some grad \<Rightarrow>
             (let sum_axes = [1..<length (model_d_in_data_shape model)]
              in case reduce_sum (tmap (\<lambda>x. x\<^sup>2) grad) sum_axes of
                   Inl e \<Rightarrow> Inl e
                 | Inr sum_of_squares \<Rightarrow>
                     (let slopes = tmap sqrt sum_of_squares;
                          gp = reduce_mean (tmap (\<lambda>s. (s - 1)\<^sup>2) slopes);
                          G_loss = reduce_mean d_fake;
                          D_loss = loss_op (+) wasserstein_distance (loss_op (*) (Some 10) gp)
                      in Inr (G_loss, D_loss))))"

text \<open>
  The gradient penalty in the words of the specification: the entries of example \<open>b\<close>
  of the gradient are all its entries outside the batch axis; the slope of the example
  is the square root of the sum of their squares.
\<close>

definition example_entries :: "tensor \<Rightarrow> nat \<Rightarrow> real list" where
  "example_entries t b =
     (let p = prod_list (tl (shape t)) in take p (drop (b * p) (data t)))"

definition l2_norm :: "real list \<Rightarrow> real" where
  "l2_norm xs = sqrt (sum_list (map (\<lambda>x. x\<^sup>2) xs))"

definition gradient_penalty :: "tensor \<Rightarrow> loss" where
  "gradient_penalty grad =
     (let penalties = map (\<lambda>b. (l2_norm (example_entries grad b) - 1)\<^sup>2) [0..<hd (shape grad)]
      in if penalties = [] then None
         else Some (sum_list penalties / real (length penalties)))"

subsection \<open>The interpolated sample\<close>

text \<open>
  \<open>alpha_shape = np.ones(len(self.d_in_data_shape)); alpha_shape[0] = X.shape[0]\<close>, and
  \<open>diff = X_gen - X; interp = X + (alpha * diff)\<close>.
\<close>

definition alpha_shape :: "int list \<Rightarrow> nat \<Rightarrow> nat list" where
  "alpha_shape dims b = b # replicate (length dims - 1) 1"

definition interpolate :: "tensor \<Rightarrow> tensor \<Rightarrow> tensor \<Rightarrow> error + tensor" where
  "interpolate X X_gen alpha =
     (case tf_binop (-) X_gen X of
        Inl e \<Rightarrow> Inl e
      | Inr diff \<Rightarrow>
          (case tf_binop (*) alpha diff of
             Inl e \<Rightarrow> Inl e
           | Inr scaled \<Rightarrow> tf_binop (+) X scaled))"

subsection \<open>The model object and its collaborators\<close>

text \<open>
  The trainable variables of a network and the state of an optimizer are lists of numbers.
  What TensorFlow does behind the calls of the source is a record of functions:
  \<open>tf.random.uniform\<close> (the argument counts the draws made so far), the choices of the
  shuffle buffer (by pass over the data and position), and the gradients the tapes return
  for the discriminator's input and for the variables of the two networks.
\<close>

type_synonym variables = "real list"

record tf_runtime =
  random_uniform :: "nat \<Rightarrow> nat list \<Rightarrow> real \<Rightarrow> real \<Rightarrow> tensor"
  shuffle_pick :: "nat \<Rightarrow> nat \<Rightarrow> nat"
  tape_input_gradient :: "variables \<Rightarrow> tensor \<Rightarrow> tensor option"
  tape_generator_gradients :: "variables \<Rightarrow> variables \<Rightarrow> tensor \<Rightarrow> tensor \<Rightarrow> tensor \<Rightarrow> variables"
  tape_discriminator_gradients :: "variables \<Rightarrow> variables \<Rightarrow> tensor \<Rightarrow> tensor \<Rightarrow> tensor \<Rightarrow> variables"

text \<open>The arguments of \<open>WGAN.__init__\<close>.\<close>

record wgan_args =
  arg_raw_dataset :: tensor
  arg_data_shape :: "int list"
  arg_d_in_data_shape :: "int list"
  arg_generator :: "variables \<Rightarrow> tensor \<Rightarrow> tensor"
  arg_discriminator :: "variables \<Rightarrow> tensor \<Rightarrow> tensor"
  arg_z_dim :: nat
  arg_generator_optimizer :: "variables \<Rightarrow> variables \<Rightarrow> variables \<Rightarrow> variables \<times> variables"
  arg_discriminator_optimizer :: "variables \<Rightarrow> variables \<Rightarrow> variables \<Rightarrow> variables \<times> variables"
  arg_generator_training_ratio :: nat
  arg_batch_size :: nat
  arg_epochs :: nat
  arg_checkpoint_dir :: "string option"
  arg_epochs_per_save :: nat
  arg_fn_compute_loss :: "loss_model \<Rightarrow> tensor \<Rightarrow> tensor \<Rightarrow> tensor \<Rightarrow> error + loss \<times> loss"
  arg_fn_save_examples :: bool

text \<open>
  The attributes of a \<open>WGAN\<close> object. \<open>checkpoint_prefix\<close> (and \<open>checkpoint\<close> with it)
  exists only when the constructor was given a checkpoint directory. The constructor
  assigns no attribute \<open>checkpoint_dir\<close> and does not call the initialiser of its base
  class \<open>AbstractModel\<close>, which is not among the sources: what \<open>self.checkpoint_dir\<close>
  evaluates to is whatever that class defines at class level, \<open>None\<close> here when it
  defines nothing (the lookup raises AttributeError), \<open>Some v\<close> when it defines the
  value \<open>v\<close>.
\<close>

record wgan =
  raw_dataset :: tensor
  data_shape :: "int list"
  d_in_data_shape :: "int list"
  generator :: "variables \<Rightarrow> tensor \<Rightarrow> tensor"
  discriminator :: "variables \<Rightarrow> tensor \<Rightarrow> tensor"
  z_dim :: nat
  generator_optimizer :: "variables \<Rightarrow> variables \<Rightarrow> variables \<Rightarrow> variables \<times> variables"
  discriminator_optimizer :: "variables \<Rightarrow> variables \<Rightarrow> variables \<Rightarrow> variables \<times> variables"
  generator_training_ratio :: nat
  batch_size :: nat
  buffer_size :: nat
  epochs :: nat
  epochs_per_save :: nat
  fn_compute_loss :: "loss_model \<Rightarrow> tensor \<Rightarrow> tensor \<Rightarrow> tensor \<Rightarrow> error + loss \<times> loss"
  fn_save_examples :: bool
  checkpoint_prefix :: "string option"
  class_checkpoint_dir :: "string option option"

text \<open>Truth value of a string or \<open>None\<close>: false for \<open>None\<close> and for the empty string.\<close>

definition truthy :: "string option \<Rightarrow> bool" where
  "truthy d = (case d of None \<Rightarrow> False | Some p \<Rightarrow> p \<noteq> [])"

definition path_join :: "string \<Rightarrow> string \<Rightarrow> string" where
  "path_join d f = (if d \<noteq> [] \<and> last d = CHR ''/'' then d @ f else d @ ''/'' @ f)"

text \<open>
  \<open>WGAN.__init__\<close>, given what the base class defines for \<open>checkpoint_dir\<close>. Building
  the dataset pipeline fails for an array without a first axis and for a batch size of 0.
\<close>

definition WGAN_init :: "string option option \<Rightarrow> wgan_args \<Rightarrow> error + wgan" where
  "WGAN_init base_checkpoint_dir a =
     (if shape (arg_raw_dataset a) = [] \<or> arg_batch_size a = 0 then Inl InvalidArgumentError
      else Inr \<lparr> raw_dataset = arg_raw_dataset a,
                 data_shape = arg_data_shape a,
                 d_in_data_shape = arg_d_in_data_shape a,
                 generator = arg_generator a,
                 discriminator = arg_discriminator a,
                 z_dim = arg_z_dim a,
                 generator_optimizer = arg_generator_optimizer a,
                 discriminator_optimizer = arg_discriminator_optimizer a,
                 generator_training_ratio = arg_generator_training_ratio a,
                 batch_size = arg_batch_size a,
                 buffer_size = 1000,
                 epochs = arg_epochs a,
                 epochs_per_save = arg_epochs_per_save a,
                 fn_compute_loss = arg_fn_compute_loss a,
                 fn_save_examples = arg_fn_save_examples a,
                 checkpoint_prefix =
                   (if truthy (arg_checkpoint_dir a)
                    then Some (path_join (the (arg_checkpoint_dir a)) ''ckpt'') else None),
                 class_checkpoint_dir = base_checkpoint_dir \<rparr>)"

subsection \<open>The dataset pipeline\<close>

text \<open>
  \<open>tf.data.Dataset.from_tensor_slices(raw).shuffle(buffer_size).repeat(ratio).batch(batch_size)\<close>.
  The slices are the examples along the first axis. The shuffle keeps a buffer of at most
  \<open>buffer_size\<close> examples: it emits one of them, chosen at random, and puts the next
  example of its input in that place. Every repetition is a new pass through the shuffle.
  The batches are cut from the concatenation of the passes, the last one possibly short.
\<close>

definition slices :: "tensor \<Rightarrow> tensor list" where
  "slices t = map (\<lambda>b. \<lparr> shape = tl (shape t), data = example_entries t b \<rparr>) [0..<hd (shape t)]"

definition stack :: "tensor list \<Rightarrow> tensor" where
  "stack ts = \<lparr> shape = length ts # shape (hd ts), data = concat (map data ts) \<rparr>"

function shuffle_emit :: "(nat \<Rightarrow> nat) \<Rightarrow> nat \<Rightarrow> 'a list \<Rightarrow> 'a list \<Rightarrow> 'a list" where
  "shuffle_emit pick i buf rest =
     (if buf = [] then []
      else let j = pick i mod length buf
           in case rest of
                [] \<Rightarrow> buf ! j # shuffle_emit pick (Suc i) (take j buf @ drop (Suc j) buf) []
              | x # rest' \<Rightarrow> buf ! j # shuffle_emit pick (Suc i) (buf[j := x]) rest')"
  by pat_completeness auto
termination
proof (relation "measure (\<lambda>(pick, i, buf, rest). length buf + length rest)")
  fix pick :: "nat \<Rightarrow> nat" and i :: nat and buf rest :: "'a list" and j :: nat
  assume "buf \<noteq> []" and j: "j = pick i mod length buf" and "rest = []"
  then have "j < length buf" by simp
  then show "((pick, Suc i, take j buf @ drop (Suc j) buf, []), (pick, i, buf, rest))
               \<in> measure (\<lambda>(pick, i, buf, rest). length buf + length rest)"
    by (simp add: min_def)
qed auto

declare shuffle_emit.simps [simp del]

definition shuffle :: "(nat \<Rightarrow> nat) \<Rightarrow> nat \<Rightarrow> 'a list \<Rightarrow> 'a list" where
  "shuffle pick buffer xs = shuffle_emit pick 0 (take buffer xs) (drop buffer xs)"

function chunk :: "nat \<Rightarrow> 'a list \<Rightarrow> 'a list list" where
  "chunk n xs = (if n = 0 \<or> xs = [] then [] else take n xs # chunk n (drop n xs))"
  by pat_completeness auto
termination
  by (relation "measure (\<lambda>(n, xs). length xs)") auto

declare chunk.simps [simp del]

definition dataset :: "tf_runtime \<Rightarrow> wgan \<Rightarrow> nat \<Rightarrow> tensor list" where
  "dataset rt w epoch =
     map stack
       (chunk (batch_size w)
          (concat (map (\<lambda>k. shuffle (shuffle_pick rt (epoch * generator_training_ratio w + k))
                               (buffer_size w) (slices (raw_dataset w)))
                     [0..<generator_training_ratio w])))"

text \<open>\<open>self.raw_dataset[0:self.batch_size]\<close>\<close>

definition leading_slice :: "nat \<Rightarrow> tensor \<Rightarrow> tensor" where
  "leading_slice n t =
     (let k = min n (hd (shape t))
      in \<lparr> shape = k # tl (shape t), data = take (k * prod_list (tl (shape t))) (data t) \<rparr>)"

subsection \<open>Training\<close>

text \<open>
  What changes while the model trains: the variables of the two networks, the states of
  the two optimizers, the number of random draws made, and the log of the calls that reach
  the outside: \<open>apply_gradients\<close> on either optimizer, the example-export callback with
  its epoch tag, \<open>checkpoint.save\<close> with its prefix.
\<close>

datatype event =
    ApplyGenerator
  | ApplyDiscriminator
  | SaveExamples nat
  | CheckpointSave string

record train_state =
  gen_variables :: variables
  disc_variables :: variables
  gen_opt_state :: variables
  disc_opt_state :: variables
  draws :: nat
  log :: "event list"

definition loss_model_of :: "tf_runtime \<Rightarrow> wgan \<Rightarrow> train_state \<Rightarrow> loss_model" where
  "loss_model_of rt w s =
     \<lparr> input_gradient = tape_input_gradient rt (disc_variables s),
        model_d_in_data_shape = d_in_data_shape w \<rparr>"

definition apply_generator :: "wgan \<Rightarrow> variables \<Rightarrow> train_state \<Rightarrow> train_state" where
  "apply_generator w grads s =
     (let (opt, vars) = generator_optimizer w (gen_opt_state s) grads (gen_variables s)
      in s\<lparr> gen_opt_state := opt, gen_variables := vars, log := log s @ [ApplyGenerator] \<rparr>)"

definition apply_discriminator :: "wgan \<Rightarrow> variables \<Rightarrow> train_state \<Rightarrow> train_state" where
  "apply_discriminator w grads s =
     (let (opt, vars) = discriminator_optimizer w (disc_opt_state s) grads (disc_variables s)
      in s\<lparr> disc_opt_state := opt, disc_variables := vars, log := log s @ [ApplyDiscriminator] \<rparr>)"

text \<open>
  \<open>_train_step\<close>. The result is the state after the call and what it returns or raises;
  the two assertions on the last dimension of the discriminator's outputs come before the
  interpolation and the losses.
\<close>

definition train_step ::
  "tf_runtime \<Rightarrow> wgan \<Rightarrow> train_state \<Rightarrow> tensor \<Rightarrow> bool \<Rightarrow> bool
     \<Rightarrow> train_state \<times> (error + loss \<times> loss)" where
  "train_step rt w s X0 train_generator train_discriminator =
     (case reshape X0 (d_in_data_shape w) of
        Inl e \<Rightarrow> (s, Inl e)
      | Inr X \<Rightarrow>
     (case shape_first X of
        Inl e \<Rightarrow> (s, Inl e)
      | Inr b \<Rightarrow>
     (let Z = random_uniform rt (draws s) [b, z_dim w] (- 1) 1;
          s1 = s\<lparr> draws := Suc (draws s) \<rparr>
      in case reshape (generator w (gen_variables s) Z) (d_in_data_shape w) of
        Inl e \<Rightarrow> (s1, Inl e)
      | Inr X_gen \<Rightarrow>
     (let d_real = discriminator w (disc_variables s) X;
          d_fake = discriminator w (disc_variables s) X_gen
      in case shape_last d_real of
        Inl e \<Rightarrow> (s1, Inl e)
      | Inr n_real \<Rightarrow>
     (if n_real \<noteq> 1 then (s1, Inl AssertionError)
      else case shape_last d_fake of
        Inl e \<Rightarrow> (s1, Inl e)
      | Inr n_fake \<Rightarrow>
     (if n_fake \<noteq> 1 then (s1, Inl AssertionError)
      else
      let alpha = random_uniform rt (draws s1) (alpha_shape (d_in_data_shape w) b) 0 1;
          s2 = s1\<lparr> draws := Suc (draws s1) \<rparr>
      in case interpolate X X_gen alpha of
        Inl e \<Rightarrow> (s2, Inl e)
      | Inr interp \<Rightarrow>
     (case fn_compute_loss w (loss_model_of rt w s) d_real d_fake interp of
        Inl e \<Rightarrow> (s2, Inl e)
      | Inr losses \<Rightarrow>
     (let gradients_of_generator =
            tape_generator_gradients rt (gen_variables s) (disc_variables s) X Z alpha;
          gradients_of_discriminator =
            tape_discriminator_gradients rt (gen_variables s) (disc_variables s) X Z alpha;
          s3 = (if train_generator then apply_generator w gradients_of_generator s2 else s2);
          s4 = (if train_discriminator then apply_discriminator w gradients_of_discriminator s3
                else s3)
      in (s4, Inr losses)))))))))"

text \<open>\<open>_generate_and_save_examples\<close>\<close>

definition generate_and_save_examples :: "wgan \<Rightarrow> train_state \<Rightarrow> nat \<Rightarrow> tensor \<Rightarrow> train_state" where
  "generate_and_save_examples w s epoch X_real =
     (if fn_save_examples w
      then s\<lparr> draws := Suc (draws s), log := log s @ [SaveExamples epoch] \<rparr>
      else s)"

text \<open>
  The loop \<open>for X in self.dataset\<close> of one epoch, from step \<open>i\<close> on: the result is the
  state, the last value bound to \<open>X\<close> if any, and the exception if one was raised.
\<close>

fun train_batches ::
  "tf_runtime \<Rightarrow> wgan \<Rightarrow> train_state \<Rightarrow> nat \<Rightarrow> tensor option \<Rightarrow> tensor list
     \<Rightarrow> train_state \<times> tensor option \<times> error option" where
  "train_batches rt w s i X [] = (s, X, None)"
| "train_batches rt w s i X (B # Bs) =
     (case train_step rt w s B False True of
        (s1, Inl e) \<Rightarrow> (s1, Some B, Some e)
      | (s1, Inr _) \<Rightarrow>
          if generator_training_ratio w = 0 then (s1, Some B, Some ZeroDivisionError)
          else if i mod generator_training_ratio w = 0
          then (case train_step rt w s1 B True False of
                  (s2, Inl e) \<Rightarrow> (s2, Some B, Some e)
                | (s2, Inr _) \<Rightarrow> train_batches rt w s2 (Suc i) (Some B) Bs)
          else train_batches rt w s1 (Suc i) (Some B) Bs)"

text \<open>
  \<open>if self.checkpoint_dir and (epoch + 1) % self.epochs_per_save == 0:
  self.checkpoint.save(file_prefix = self.checkpoint_prefix)\<close>
\<close>

definition save_checkpoint :: "wgan \<Rightarrow> train_state \<Rightarrow> nat \<Rightarrow> train_state \<times> error option" where
  "save_checkpoint w s epoch =
     (case class_checkpoint_dir w of
        None \<Rightarrow> (s, Some AttributeError)
      | Some d \<Rightarrow>
          if \<not> truthy d then (s, None)
          else if epochs_per_save w = 0 then (s, Some ZeroDivisionError)
          else if (epoch + 1) mod epochs_per_save w \<noteq> 0 then (s, None)
          else (case checkpoint_prefix w of
                  None \<Rightarrow> (s, Some AttributeError)
                | Some p \<Rightarrow> (s\<lparr> log := log s @ [CheckpointSave p] \<rparr>, None)))"

fun train_epochs ::
  "tf_runtime \<Rightarrow> wgan \<Rightarrow> train_state \<Rightarrow> tensor option \<Rightarrow> nat list \<Rightarrow> train_state \<times> error option" where
  "train_epochs rt w s X [] = (s, None)"
| "train_epochs rt w s X (epoch # es) =
     (case train_batches rt w s 1 X (dataset rt w epoch) of
        (s1, X1, Some e) \<Rightarrow> (s1, Some e)
      | (s1, X1, None) \<Rightarrow>
          (case save_checkpoint w s1 epoch of
             (s2, Some e) \<Rightarrow> (s2, Some e)
           | (s2, None) \<Rightarrow>
               (case X1 of
                  None \<Rightarrow> (s2, Some UnboundLocalError)
                | Some X_last \<Rightarrow>
                    train_epochs rt w (generate_and_save_examples w s2 (epoch + 1) X_last)
                      X1 es)))"

definition train :: "tf_runtime \<Rightarrow> wgan \<Rightarrow> train_state \<Rightarrow> train_state \<times> error option" where
  "train rt w s =
     train_epochs rt w
       (generate_and_save_examples w s 0 (leading_slice (batch_size w) (raw_dataset w)))
       None [0..<epochs w]"

text \<open>How often an event occurs in a log.\<close>

definition count_event :: "event \<Rightarrow> event list \<Rightarrow> nat" where
  "count_event e l = length (filter (\<lambda>x. x = e) l)"

text \<open>
  The epoch tags of the calls of the example-export callback in a log, and the prefixes of
  the calls of \<open>checkpoint.save\<close>, in the order of the calls.
\<close>

definition exports :: "event list \<Rightarrow> nat list" where
  "exports l = concat (map (\<lambda>e. case e of SaveExamples n \<Rightarrow> [n] | _ \<Rightarrow> []) l)"

definition checkpoints :: "event list \<Rightarrow> string list" where
  "checkpoints l = concat (map (\<lambda>e. case e of CheckpointSave p \<Rightarrow> [p] | _ \<Rightarrow> []) l)"

section \<open>Instances for evaluation\<close>

text \<open>A signal library whose STFT of any signal has two frames of three bins, all zero.\<close>

definition zero_lib :: signal_lib where
  "zero_lib = \<lparr> signal_stft = (\<lambda>x fl fs. [[0, 0, 0], [0, 0, 0]]),
                signal_inverse_stft = (\<lambda>c fl fs. []),
                linear_to_mel_weight_matrix = (\<lambda>n k sr lo hi. []),
                linalg_pinv = (\<lambda>m. m),
                griffinlim = (\<lambda>g m n fl fs. ([], g)) \<rparr>"


text \<open>
  A discriminator whose gradient at any input is the batch of the two examples
  \<open>[1, 0]\<close> and \<open>[0, 0]\<close>, with an input of shape [-1, 2]; and two batches of scores.
\<close>

definition fixed_gradient :: tensor where
  "fixed_gradient = \<lparr> shape = [2, 2], data = [1, 0, 0, 0] \<rparr>"

definition fixed_gradient_model :: loss_model where
  "fixed_gradient_model =
     \<lparr> input_gradient = (\<lambda>t. Some fixed_gradient), model_d_in_data_shape = [- 1, 2] \<rparr>"

definition scores_real :: tensor where
  "scores_real = \<lparr> shape = [2, 1], data = [1, 3] \<rparr>"

definition scores_fake :: tensor where
  "scores_fake = \<lparr> shape = [2, 1], data = [0, 2] \<rparr>"

text \<open>A real and a generated batch of two examples with two entries each.\<close>

definition batch_real :: tensor where
  "batch_real = \<lparr> shape = [2, 2], data = [1, 2, 3, 4] \<rparr>"

definition batch_generated :: tensor where
  "batch_generated = \<lparr> shape = [2, 2], data = [5, 6, 7, 8] \<rparr>"

text \<open>
  A runtime whose random draws are all zero, whose shuffle always emits the first example
  of its buffer, and whose tapes return zero gradients.
\<close>

definition zero_tensor :: "nat list \<Rightarrow> tensor" where
  "zero_tensor s = \<lparr> shape = s, data = replicate (prod_list s) 0 \<rparr>"

definition zero_runtime :: tf_runtime where
  "zero_runtime =
     \<lparr> random_uniform = (\<lambda>n s lo hi. zero_tensor s),
        shuffle_pick = (\<lambda>p i. 0),
        tape_input_gradient = (\<lambda>v t. Some (zero_tensor (shape t))),
        tape_generator_gradients = (\<lambda>g d X Z alpha. []),
        tape_discriminator_gradients = (\<lambda>g d X Z alpha. []) \<rparr>"

definition initial_state :: train_state where
  "initial_state =
     \<lparr> gen_variables = [], disc_variables = [], gen_opt_state = [], disc_opt_state = [],
        draws = 0, log = [] \<rparr>"

text \<open>
  A model whose discriminator returns two scores per example, on inputs of shape [-1, 2].
\<close>

definition wide_model :: wgan where
  "wide_model =
     \<lparr> raw_dataset = batch_real,
        data_shape = [- 1, 2],
        d_in_data_shape = [- 1, 2],
        generator = (\<lambda>v Z. batch_generated),
        discriminator = (\<lambda>v X. zero_tensor [hd (shape X), 2]),
        z_dim = 1,
        generator_optimizer = (\<lambda>opt grads vars. (opt, vars)),
        discriminator_optimizer = (\<lambda>opt grads vars. (opt, vars)),
        generator_training_ratio = 5,
        batch_size = 2,
        buffer_size = 1000,
        epochs = 1,
        epochs_per_save = 10,
        fn_compute_loss = compute_losses,
        fn_save_examples = False,
        checkpoint_prefix = None,
        class_checkpoint_dir = None \<rparr>"

text \<open>
  The end-to-end scenario: a dataset of 100 examples of length 1024, batch size 16,
  generator training ratio 5, one epoch, the default loss and an export callback; the
  generator returns one example of length 1024 per latent vector, the discriminator one
  score per example. The checkpoint directory and the save cadence given to the
  constructor are arguments of the scenario (\<open>None\<close> and 10 are the constructor's
  defaults), and so is what the base class defines for \<open>checkpoint_dir\<close>. The runtime
  is the zero runtime with any choices of the shuffle. \<open>scenario_steps\<close> are the
  optimizer updates of steps 1 to 32.
\<close>

definition scenario_args :: "string option \<Rightarrow> nat \<Rightarrow> wgan_args" where
  "scenario_args dir per_save =
     \<lparr> arg_raw_dataset = zero_tensor [100, 1024],
        arg_data_shape = [- 1, 1024],
        arg_d_in_data_shape = [- 1, 1024, 1],
        arg_generator = (\<lambda>v Z. zero_tensor [hd (shape Z), 1024]),
        arg_discriminator = (\<lambda>v X. zero_tensor [hd (shape X), 1]),
        arg_z_dim = 100,
        arg_generator_optimizer = (\<lambda>opt grads vars. (opt, vars)),
        arg_discriminator_optimizer = (\<lambda>opt grads vars. (opt, vars)),
        arg_generator_training_ratio = 5,
        arg_batch_size = 16,
        arg_epochs = 1,
        arg_checkpoint_dir = dir,
        arg_epochs_per_save = per_save,
        arg_fn_compute_loss = compute_losses,
        arg_fn_save_examples = True \<rparr>"

definition scenario_model :: "string option option \<Rightarrow> string option \<Rightarrow> nat \<Rightarrow> wgan" where
  "scenario_model base dir per_save = projr (WGAN_init base (scenario_args dir per_save))"

definition scenario_runtime :: "(nat \<Rightarrow> nat \<Rightarrow> nat) \<Rightarrow> tf_runtime" where
  "scenario_runtime pick = zero_runtime \<lparr> shuffle_pick := pick \<rparr>"

definition scenario_steps :: "event list" where
  "scenario_steps =
     concat (map (\<lambda>j. ApplyDiscriminator # (if j mod 5 = 0 then [ApplyGenerator] else []))
               [1..<33])"

section \<open>Phase recovery in spectogram_2_waveform\<close>












section \<open>The magnitude is a channel of the spectogram\<close>

lemma map2_left_id: "list_all2 (\<lambda>u v. h u v = u) x y \<Longrightarrow> map2 h x y = x"
  by (induction x y rule: list_all2_induct) simp_all

lemma map_map2: "map f (map2 g a b) = map2 (\<lambda>x y. f (g x y)) a b"
  by (rule nth_equalityI) simp_all

lemma channel0_stack_row:
  "length x = length y \<Longrightarrow> map2 (\<lambda>x y. [x, y] ! 0) x y = x"
  by (rule map2_left_id) (simp add: list_all2_conv_all_nth)

lemma channel0_stack_example:
  assumes "list_all2 (\<lambda>x y. length x = length y) a b"
  shows "map2 (map2 (\<lambda>x y. [x, y] ! 0)) a b = a"
  by (rule map2_left_id, rule list_all2_mono[OF assms]) (rule channel0_stack_row)

lemma channel0_stack_channels:
  assumes "shape_eq a b"
  shows "channel 0 (stack_channels a b) = a"
  unfolding channel_def stack_channels_def map3_def map_map2
  by (rule map2_left_id, rule list_all2_mono[OF assms[unfolded shape_eq_def]])
     (rule channel0_stack_example)

lemma shape_eq_truncated:
  "shape_eq (map (map (\<lambda>bins. butlast (map f bins))) t) (map (map (\<lambda>bins. butlast (map g bins))) t)"
  by (simp add: shape_eq_def list_all2_map1 list_all2_map2 list_all2_same)

lemma shape_eq_map3: "shape_eq a b \<Longrightarrow> shape_eq (map3 f a) b"
  by (simp add: shape_eq_def map3_def list_all2_map1)

lemma shape_eq_concat:
  "shape_eq a b \<Longrightarrow> list_all2 (\<lambda>x y. length x = length y) (concat a) (concat b)"
  unfolding shape_eq_def
  by (induction a b rule: list_all2_induct) (auto intro: list_all2_appendI)

lemma first_length_eq:
  "list_all2 (\<lambda>x y. length x = length y) xs ys \<Longrightarrow>
   (case xs of [] \<Rightarrow> 0 | r # _ \<Rightarrow> length r) = (case ys of [] \<Rightarrow> 0 | r # _ \<Rightarrow> length r)"
  by (cases xs; cases ys) simp_all

lemma shape_eq_last_dim: "shape_eq a b \<Longrightarrow> last_dim a = last_dim b"
  unfolding last_dim_def by (rule first_length_eq) (rule shape_eq_concat)

lemma shape_eq_tensordot:
  assumes "shape_eq a b" "tensordot a w = Inr a'" "tensordot b w = Inr b'"
  shows "shape_eq a' b'"
proof -
  have a': "a' = map (map (\<lambda>r. row_times_matrix r w)) a"
    and b': "b' = map (map (\<lambda>r. row_times_matrix r w)) b"
    using assms(2,3) by (auto simp: tensordot_def split: if_splits)
  have "list_all2 (list_all2 (\<lambda>x y. True)) a b"
    using assms(1) unfolding shape_eq_def
    by (rule list_all2_mono) (auto elim: list_all2_mono)
  then show ?thesis
    unfolding a' b' shape_eq_def
    by (simp add: list_all2_map1 list_all2_map2 row_times_matrix_def)
qed

lemma length_unwrap_from: "length (unwrap_from prev corr xs) = length xs"
  by (induction xs arbitrary: prev corr) (simp_all add: Let_def)

lemma length_np_unwrap: "length (np_unwrap p) = length p"
  by (simp add: np_unwrap_def length_unwrap_from split: list.splits)

lemma diff_frames_lengths:
  assumes "\<forall>x \<in> set (r # rs). length x = n"
  shows "list_all2 (\<lambda>x y. length x = length y) rs (map2 (map2 (-)) rs (r # rs))"
  using assms
proof (induction rs arbitrary: r)
  case Nil
  then show ?case by simp
next
  case (Cons s ss)
  then show ?case by simp
qed

lemma first_frame_then_diff_shape:
  assumes "first_frame_then_diff ph = Inr ph'"
    and "\<forall>p \<in> set ph. \<exists>n. \<forall>r \<in> set p. length r = n"
  shows "shape_eq ph ph'"
proof -
  have ne: "\<forall>p \<in> set ph. p \<noteq> []" and ph': "ph' = map (\<lambda>p. hd p # np_diff_frames p) ph"
    using assms(1) by (auto simp: first_frame_then_diff_def list_ex_iff split: if_splits)
  have "list_all2 (\<lambda>x y. length x = length y) p (hd p # np_diff_frames p)" if pin: "p \<in> set ph" for p
  proof -
    obtain r rs where p: "p = r # rs" using ne pin by (cases p) auto
    obtain n where "\<forall>x \<in> set (r # rs). length x = n" using assms(2) pin p by blast
    from diff_frames_lengths[OF this] show ?thesis by (simp add: p np_diff_frames_def)
  qed
  then show ?thesis
    unfolding ph' shape_eq_def by (simp add: list_all2_map2 list_all2_same)
qed

lemma shape_eq_trans: "shape_eq a b \<Longrightarrow> shape_eq b c \<Longrightarrow> shape_eq a c"
  unfolding shape_eq_def
  by (erule list_all2_trans[rotated], assumption) (auto elim: list_all2_trans[rotated])


lemma shape_eq_unwrap: "shape_eq ph (map (map np_unwrap) ph)"
  by (simp add: shape_eq_def list_all2_map2 list_all2_same length_np_unwrap)

lemma phase_stage_shape:
  assumes "shape_eq m ph"
    and "\<forall>p \<in> set ph. \<exists>n. \<forall>r \<in> set p. length r = n"
    and "(if inst then first_frame_then_diff (map (map np_unwrap) ph) else Inr ph) = Inr ph'"
  shows "shape_eq m ph'"
proof (cases inst)
  case False
  then show ?thesis using assms by simp
next
  case True
  then have ff: "first_frame_then_diff (map (map np_unwrap) ph) = Inr ph'"
    using assms(3) by simp
  have "\<forall>p \<in> set (map (map np_unwrap) ph). \<exists>n. \<forall>r \<in> set p. length r = n"
    using assms(2) by (auto simp: length_np_unwrap)
  from first_frame_then_diff_shape[OF ff this]
  have "shape_eq (map (map np_unwrap) ph) ph'" .
  with shape_eq_unwrap[of ph] have "shape_eq ph ph'" by (rule shape_eq_trans)
  with assms(1) show ?thesis by (rule shape_eq_trans)
qed

lemma tensordot_rows:
  assumes "tensordot a w = Inr a'"
  shows "\<forall>p \<in> set a'. \<exists>n. \<forall>r \<in> set p. length r = n"
proof -
  have "a' = map (map (\<lambda>r. row_times_matrix r w)) a"
    using assms by (auto simp: tensordot_def split: if_splits)
  then show ?thesis by (auto simp: row_times_matrix_def)
qed

lemma truncated_rows:
  assumes "rectangular_stft lib w fl fs"
  shows "\<forall>p \<in> set (map (map (\<lambda>bins. butlast (map f bins)))
                       (map (\<lambda>x. signal_stft lib x fl fs) (batch_of_waveform w))).
           \<exists>n. \<forall>r \<in> set p. length r = n"
  using assms by (auto simp: rectangular_stft_def list_all_iff)

lemma spectogram_magnitude_channel:
  assumes rect: "rectangular_stft lib w fl fs"
    and S: "waveform_2_spectogram lib w fl fs lg inst n lo hi = Inr S"
  shows "magnitude_only lib w fl fs lg n lo hi = Inr (channel 0 S)"
proof -
  let ?stft = "map (\<lambda>x. signal_stft lib x fl fs) (batch_of_waveform w)"
  let ?m = "map (map (\<lambda>bins. butlast (map cmod bins))) ?stft"
  let ?p = "map (map (\<lambda>bins. butlast (map Arg bins))) ?stft"
  have mp: "shape_eq ?m ?p" by (rule shape_eq_truncated)
  show ?thesis
  proof (cases "truthy_bins n")
    case False
    from S False obtain ph' where
      ph': "(if inst then first_frame_then_diff (map (map np_unwrap) ?p) else Inr ?p) = Inr ph'"
      and S': "S = stack_channels (if lg then map3 (\<lambda>m. ln (m + EPSILON)) ?m else ?m) ph'"
      by (auto simp: waveform_2_spectogram_def bind_err_def Let_def simp del: map_map
          split: sum.splits)
    have "shape_eq ?m ph'"
      using mp truncated_rows[OF rect] ph' by (rule phase_stage_shape)
    then have "shape_eq (if lg then map3 (\<lambda>m. ln (m + EPSILON)) ?m else ?m) ph'"
      by (simp add: shape_eq_map3)
    then show ?thesis
      using False
      by (simp add: magnitude_only_def S' channel0_stack_channels bind_err_def del: map_map)
  next
    case True
    let ?W = "linear_to_mel_weight_matrix lib (the n) (last_dim ?m) SAMPLE_RATE lo hi"
    have ld: "last_dim ?p = last_dim ?m" using shape_eq_last_dim[OF mp] by simp
    from S True obtain m' p' ph' where
      m': "tensordot ?m ?W = Inr m'" and p': "tensordot ?p ?W = Inr p'"
      and ph': "(if inst then first_frame_then_diff (map (map np_unwrap) p') else Inr p') = Inr ph'"
      and S': "S = stack_channels (if lg then map3 (\<lambda>m. ln (m + EPSILON)) m' else m') ph'"
      by (auto simp: waveform_2_spectogram_def linear_to_mel_scale_def ld bind_err_def Let_def
               simp del: map_map split: sum.splits)
    have "shape_eq m' p'" using mp m' p' by (rule shape_eq_tensordot)
    then have "shape_eq m' ph'"
      using tensordot_rows[OF p'] ph' by (rule phase_stage_shape)
    then have "shape_eq (if lg then map3 (\<lambda>m. ln (m + EPSILON)) m' else m') ph'"
      by (simp add: shape_eq_map3)
    then show ?thesis
      using True m'
      by (simp add: magnitude_only_def linear_to_mel_scale_def S' channel0_stack_channels
            bind_err_def del: map_map)
  qed
qed

text \<open>
  Claim C10. \<open>waveform_2_magnitude\<close> is the composition of \<open>waveform_2_spectogram\<close>
  (at the same frame length, frame step, logarithm flag and mel parameters) with the
  selection of index 0 of the last axis, errors included. The channel it selects does not
  depend on how the phase channel is encoded: whenever the spectogram is returned, with
  either value of \<open>instantaneous_frequency\<close>, and the magnitude is returned, the
  magnitude is channel 0 of that spectogram, which is the magnitude as
  \<open>waveform_2_spectogram\<close> computes it (\<open>magnitude_only\<close>).
\<close>

theorem waveform_2_magnitude_is_magnitude_channel:
  "waveform_2_magnitude lib w fl fs lg n lo hi =
     (case waveform_2_spectogram lib w fl fs lg True n lo hi of
        Inl e \<Rightarrow> Inl e
      | Inr S \<Rightarrow> Inr (channel 0 S))
   \<and> (rectangular_stft lib w fl fs \<longrightarrow>
        (\<forall>inst S M. waveform_2_spectogram lib w fl fs lg inst n lo hi = Inr S \<longrightarrow>
           waveform_2_magnitude lib w fl fs lg n lo hi = Inr M \<longrightarrow>
           M = channel 0 S \<and> magnitude_only lib w fl fs lg n lo hi = Inr M))"
proof (intro conjI impI allI)
  show "waveform_2_magnitude lib w fl fs lg n lo hi =
     (case waveform_2_spectogram lib w fl fs lg True n lo hi of
        Inl e \<Rightarrow> Inl e
      | Inr S \<Rightarrow> Inr (channel 0 S))"
    by (simp add: waveform_2_magnitude_def bind_err_def)
next
  fix inst S M
  assume rect: "rectangular_stft lib w fl fs"
    and S: "waveform_2_spectogram lib w fl fs lg inst n lo hi = Inr S"
    and M: "waveform_2_magnitude lib w fl fs lg n lo hi = Inr M"
  from M obtain S' where S': "waveform_2_spectogram lib w fl fs lg True n lo hi = Inr S'"
    and MS': "M = channel 0 S'"
    by (auto simp: waveform_2_magnitude_def bind_err_def split: sum.splits)
  from spectogram_magnitude_channel[OF rect S] spectogram_magnitude_channel[OF rect S']
  show "M = channel 0 S" and "magnitude_only lib w fl fs lg n lo hi = Inr M"
    by (simp_all add: MS')
qed

lemma zero_lib_spectogram:
  "waveform_2_spectogram zero_lib (Wave1 [1, 2]) 4 2 False False None 0 8000 =
     Inr [[[[0, 0], [0, 0]], [[0, 0], [0, 0]]]]"
  by (simp add: waveform_2_spectogram_def zero_lib_def batch_of_waveform_def truthy_bins_def
        bind_err_def stack_channels_def Arg_zero)

lemma zero_lib_magnitude:
  "waveform_2_magnitude zero_lib (Wave1 [1, 2]) 4 2 False None 0 8000 =
     Inr [[[0, 0], [0, 0]]]"
  by (simp add: waveform_2_magnitude_def waveform_2_spectogram_def zero_lib_def
        batch_of_waveform_def truthy_bins_def bind_err_def stack_channels_def
        first_frame_then_diff_def np_unwrap_def np_diff_frames_def channel_def map3_def Let_def
        Arg_zero floormod_def)

theorem waveform_2_magnitude_is_magnitude_channel_witness:
  "rectangular_stft zero_lib (Wave1 [1, 2]) 4 2 \<and>
   waveform_2_spectogram zero_lib (Wave1 [1, 2]) 4 2 False False None 0 8000 =
     Inr [[[[0, 0], [0, 0]], [[0, 0], [0, 0]]]] \<and>
   waveform_2_magnitude zero_lib (Wave1 [1, 2]) 4 2 False None 0 8000 = Inr [[[0, 0], [0, 0]]] \<and>
   [[[0, 0], [0, 0]]] = channel 0 [[[[0, 0], [0, 0]], [[0, 0], [0, 0]]]] \<and>
   magnitude_only zero_lib (Wave1 [1, 2]) 4 2 False None 0 8000 = Inr [[[0, 0], [0, 0]]]"
proof -
  have r: "rectangular_stft zero_lib (Wave1 [1, 2]) 4 2"
    by (simp add: rectangular_stft_def zero_lib_def batch_of_waveform_def)
  from waveform_2_magnitude_is_magnitude_channel[of zero_lib "Wave1 [1, 2]" 4 2 False None 0 8000]
    r zero_lib_spectogram zero_lib_magnitude
  show ?thesis by blast
qed

section \<open>Determinism of the transforms\<close>





section \<open>The default loss\<close>

lemma reduce_last_axis:
  assumes "shape t = ds @ [d]"
  shows "reduce_axis (length ds) t =
           \<lparr> shape = ds,
              data = map (\<lambda>i. sum_list (map (\<lambda>j. data t ! (i * d + j)) [0..<d]))
                       [0..<prod_list ds] \<rparr>"
  by (simp add: reduce_axis_def assms Let_def)

lemma sum_list_blocks:
  "sum_list (map (\<lambda>i. sum_list (map (\<lambda>j. f (i * d + j)) [0..<d])) [0..<p]) =
   sum_list (map f [0..<p * d])"
proof (induction p)
  case 0
  then show ?case by simp
next
  case (Suc p)
  have split: "[0..<p * d + d] = [0..<p * d] @ [p * d..<p * d + d]"
    by (rule upt_add_eq_append) simp
  have block: "map f [p * d..<p * d + d] = map (\<lambda>j. f (p * d + j)) [0..<d]"
    by (rule nth_equalityI) simp_all
  have "sum_list (map f [0..<Suc p * d]) =
        sum_list (map f [0..<p * d]) + sum_list (map (\<lambda>j. f (p * d + j)) [0..<d])"
    using split block by (simp add: add.commute[of d])
  then show ?case using Suc by simp
qed

lemma fold_reduce_non_batch_axes:
  assumes "length xs = B * prod_list ds"
  shows "fold reduce_axis (rev [1..<Suc (length ds)]) \<lparr> shape = B # ds, data = xs \<rparr> =
           \<lparr> shape = [B],
              data = map (\<lambda>b. sum_list (map (\<lambda>i. xs ! (b * prod_list ds + i)) [0..<prod_list ds]))
                       [0..<B] \<rparr>"
  using assms
proof (induction ds arbitrary: xs rule: rev_induct)
  case Nil
  then have "map ((!) xs) [0..<B] = xs" using map_nth[of xs] by simp
  then show ?case by simp
next
  case (snoc d ds)
  let ?P = "prod_list ds"
  let ?ys = "map (\<lambda>i. sum_list (map (\<lambda>j. xs ! (i * d + j)) [0..<d])) [0..<B * ?P]"
  have step: "reduce_axis (Suc (length ds)) \<lparr> shape = B # ds @ [d], data = xs \<rparr> =
                \<lparr> shape = B # ds, data = ?ys \<rparr>"
    using reduce_last_axis[of "\<lparr> shape = B # ds @ [d], data = xs \<rparr>" "B # ds" d] by simp
  have len: "length ?ys = B * ?P" by simp
  have inner: "sum_list (map (\<lambda>i. ?ys ! (b * ?P + i)) [0..<?P]) =
               sum_list (map (\<lambda>i. xs ! (b * prod_list (ds @ [d]) + i)) [0..<prod_list (ds @ [d])])"
    if b: "b < B" for b
  proof -
    have in_range: "b * ?P + i < B * ?P" if "i < ?P" for i
    proof -
      have "b * ?P + i < Suc b * ?P" using that by simp
      also have "\<dots> \<le> B * ?P" using b by (intro mult_le_mono1) simp
      finally show ?thesis .
    qed
    have "sum_list (map (\<lambda>i. ?ys ! (b * ?P + i)) [0..<?P]) =
          sum_list (map (\<lambda>i. sum_list (map (\<lambda>j. xs ! (b * (?P * d) + (i * d + j))) [0..<d])) [0..<?P])"
      using in_range
      by (intro arg_cong[where f = sum_list] map_cong refl) (simp add: algebra_simps)
    also have "\<dots> = sum_list (map (\<lambda>m. xs ! (b * (?P * d) + m)) [0..<?P * d])"
      by (rule sum_list_blocks[where f = "\<lambda>m. xs ! (b * (?P * d) + m)"])
    finally show ?thesis by simp
  qed
  have "fold reduce_axis (rev [1..<Suc (length (ds @ [d]))]) \<lparr> shape = B # ds @ [d], data = xs \<rparr> =
        fold reduce_axis (rev [1..<Suc (length ds)]) \<lparr> shape = B # ds, data = ?ys \<rparr>"
    using step by simp
  also have "\<dots> = \<lparr> shape = [B],
                     data = map (\<lambda>b. sum_list (map (\<lambda>i. ?ys ! (b * ?P + i)) [0..<?P])) [0..<B] \<rparr>"
    by (rule snoc.IH[OF len])
  also have "\<dots> = \<lparr> shape = [B],
                     data = map (\<lambda>b. sum_list (map (\<lambda>i. xs ! (b * prod_list (ds @ [d]) + i))
                                                   [0..<prod_list (ds @ [d])])) [0..<B] \<rparr>"
    using inner by simp
  finally show ?case by simp
qed

lemma map_nth_block:
  assumes "n + k \<le> length xs"
  shows "map (\<lambda>i. xs ! (n + i)) [0..<k] = take k (drop n xs)"
  using assms by (intro nth_equalityI) simp_all

lemma block_in_range:
  assumes "b < (B::nat)"
  shows "b * p + p \<le> B * p"
proof -
  have "b * p + p = Suc b * p" by simp
  also have "\<dots> \<le> B * p" using assms by (intro mult_le_mono1) simp
  finally show ?thesis .
qed

lemma reduce_sum_squares:
  assumes "valid grad" "shape grad = B # ds"
  shows "reduce_sum (tmap (\<lambda>x. x\<^sup>2) grad) [1..<Suc (length ds)] =
           Inr \<lparr> shape = [B],
                  data = map (\<lambda>b. sum_list (map (\<lambda>x. x\<^sup>2) (example_entries grad b))) [0..<B] \<rparr>"
proof -
  let ?sq = "map (\<lambda>x. x\<^sup>2) (data grad)"
  let ?P = "prod_list ds"
  have len: "length ?sq = B * ?P" using assms by (simp add: valid_def)
  have t: "tmap (\<lambda>x. x\<^sup>2) grad = \<lparr> shape = B # ds, data = ?sq \<rparr>"
    using assms(2) by (simp add: tmap_def)
  have entries: "sum_list (map (\<lambda>i. ?sq ! (b * ?P + i)) [0..<?P]) =
                 sum_list (map (\<lambda>x. x\<^sup>2) (example_entries grad b))" if "b < B" for b
  proof -
    have "b * ?P + ?P \<le> length ?sq" using block_in_range[OF that] len by simp
    then have "map (\<lambda>i. ?sq ! (b * ?P + i)) [0..<?P] = take ?P (drop (b * ?P) ?sq)"
      by (rule map_nth_block)
    then show ?thesis
      by (simp add: example_entries_def assms(2) take_map drop_map Let_def)
  qed
  have "reduce_sum (tmap (\<lambda>x. x\<^sup>2) grad) [1..<Suc (length ds)] =
        Inr (fold reduce_axis (rev [1..<Suc (length ds)]) \<lparr> shape = B # ds, data = ?sq \<rparr>)"
    by (simp add: reduce_sum_def t list_ex_iff del: upt_Suc)
  also have "\<dots> = Inr \<lparr> shape = [B],
                  data = map (\<lambda>b. sum_list (map (\<lambda>i. ?sq ! (b * ?P + i)) [0..<?P])) [0..<B] \<rparr>"
    using fold_reduce_non_batch_axes[OF len] by simp
  finally show ?thesis using entries by simp
qed

text \<open>
  Claim C1. Let the gradient of the discriminator's score at the interpolated batch have
  the rank of the discriminator's input, with a batch axis. Then \<open>_compute_losses\<close>
  returns the mean of \<open>d_fake\<close> as generator loss and, as discriminator loss, the mean
  of \<open>d_real\<close> minus the mean of \<open>d_fake\<close> plus ten times the mean over the examples
  of \<open>(slope - 1)\<^sup>2\<close>, the slope of an example being the square root of the sum of
  the squares of all entries of its gradient. The factor 10 is no parameter of the
  function.
\<close>

theorem compute_losses_formula:
  assumes "input_gradient model interpolated = Some grad"
    and "valid grad"
    and "shape grad \<noteq> []"
    and "length (shape grad) = length (model_d_in_data_shape model)"
  shows "compute_losses model d_real d_fake interpolated =
           Inr (reduce_mean d_fake,
                loss_op (+) (loss_op (-) (reduce_mean d_real) (reduce_mean d_fake))
                            (loss_op (*) (Some 10) (gradient_penalty grad)))"
proof -
  obtain B ds where sh: "shape grad = B # ds" using assms(3) by (cases "shape grad") auto
  have axes: "[1..<length (model_d_in_data_shape model)] = [1..<Suc (length ds)]"
    using assms(4) sh by simp
  have gp: "reduce_mean (tmap (\<lambda>s. (s - 1)\<^sup>2)
              (tmap sqrt \<lparr> shape = [B],
                  data = map (\<lambda>b. sum_list (map (\<lambda>x. x\<^sup>2) (example_entries grad b))) [0..<B] \<rparr>)) =
            gradient_penalty grad"
    by (simp add: reduce_mean_def tmap_def gradient_penalty_def l2_norm_def sh o_def Let_def)
  have rs: "reduce_sum (tmap (\<lambda>x. x\<^sup>2) grad) [1..<length (model_d_in_data_shape model)] =
      Inr \<lparr> shape = [B],
             data = map (\<lambda>b. sum_list (map (\<lambda>x. x\<^sup>2) (example_entries grad b))) [0..<B] \<rparr>"
    unfolding axes by (rule reduce_sum_squares[OF assms(2) sh])
  show ?thesis
    unfolding compute_losses_def Let_def assms(1) option.case rs sum.case gp ..
qed

theorem compute_losses_formula_witness:
  "input_gradient fixed_gradient_model fixed_gradient = Some fixed_gradient \<and>
   valid fixed_gradient \<and> shape fixed_gradient \<noteq> [] \<and>
   length (shape fixed_gradient) = length (model_d_in_data_shape fixed_gradient_model) \<and>
   compute_losses fixed_gradient_model scores_real scores_fake fixed_gradient =
     Inr (Some 1, Some 6)"
proof -
  have h: "input_gradient fixed_gradient_model fixed_gradient = Some fixed_gradient"
    "valid fixed_gradient" "shape fixed_gradient \<noteq> []"
    "length (shape fixed_gradient) = length (model_d_in_data_shape fixed_gradient_model)"
    by (simp_all add: fixed_gradient_model_def fixed_gradient_def valid_def)
  have gp: "gradient_penalty fixed_gradient = Some (1 / 2)"
    by (simp add: gradient_penalty_def fixed_gradient_def example_entries_def l2_norm_def
          numeral_2_eq_2 upt_rec[of 0] upt_rec[of "Suc 0"])
  have "compute_losses fixed_gradient_model scores_real scores_fake fixed_gradient =
          Inr (Some 1, Some 6)"
    unfolding compute_losses_formula[OF h, of scores_real scores_fake] gp
    by (simp add: reduce_mean_def loss_op_def scores_real_def scores_fake_def)
  with h show ?thesis by simp
qed

section \<open>The interpolated sample\<close>

lemma broadcast_dims_same: "broadcast_dims xs xs = Some xs"
  by (induction xs) simp_all

lemma broadcast_shape_same: "broadcast_shape s s = Some s"
  by (simp add: broadcast_shape_def broadcast_dims_same)

lemma broadcast_dims_ones:
  "broadcast_dims (replicate (length ys) 1 @ [B]) (ys @ [B]) = Some (ys @ [B])"
  by (induction ys) simp_all

lemma broadcast_shape_alpha:
  "broadcast_shape (B # replicate (length ds) 1) (B # ds) = Some (B # ds)"
proof -
  have "rev (replicate (length ds) (1::nat)) = replicate (length (rev ds)) 1" by simp
  then show ?thesis
    using broadcast_dims_ones[of "rev ds" B] by (simp add: broadcast_shape_def)
qed

lemma pad_rank_same: "pad_rank (length s) s = s"
  by (simp add: pad_rank_def)

lemma bidx_same: "i < prod_list s \<Longrightarrow> bidx s s i = i"
proof (induction s arbitrary: i)
  case Nil
  then show ?case by simp
next
  case (Cons d ds)
  have pos: "0 < prod_list ds" using Cons.prems by (cases "prod_list ds") simp_all
  then have rest: "bidx ds ds (i mod prod_list ds) = i mod prod_list ds"
    by (intro Cons.IH) simp
  show ?case
  proof (cases "d = 1")
    case True
    then have "i < prod_list ds" using Cons.prems by simp
    then show ?thesis using True rest by simp
  next
    case False
    then show ?thesis using rest by simp
  qed
qed

lemma bidx_ones: "bidx (replicate (length ds) (Suc 0)) ds j = 0"
  by (induction ds arbitrary: j) simp_all

lemma bidx_alpha:
  assumes "i < B * prod_list ds"
  shows "bidx (B # replicate (length ds) (Suc 0)) (B # ds) i = i div prod_list ds"
proof (cases "B = 1")
  case True
  then show ?thesis using assms by (simp add: bidx_ones)
next
  case False
  then show ?thesis by (simp add: bidx_ones)
qed

lemma tf_binop_same_shape:
  assumes "shape a = s" "shape b = s"
  shows "tf_binop f a b =
           Inr \<lparr> shape = s, data = map (\<lambda>i. f (data a ! i) (data b ! i)) [0..<prod_list s] \<rparr>"
  using assms
  by (simp add: tf_binop_def broadcast_shape_same pad_rank_same bidx_same cong: map_cong)

lemma tf_binop_alpha:
  assumes "shape a = B # replicate (length ds) 1" "shape b = B # ds"
  shows "tf_binop f a b =
           Inr \<lparr> shape = B # ds,
                  data = map (\<lambda>i. f (data a ! (i div prod_list ds)) (data b ! i))
                           [0..<B * prod_list ds] \<rparr>"
proof -
  have pa: "pad_rank (length (B # ds)) (shape a) = B # replicate (length ds) 1"
    by (simp add: pad_rank_def assms)
  have pb: "pad_rank (length (B # ds)) (shape b) = B # ds"
    by (simp add: pad_rank_def assms)
  have "map (\<lambda>i. f (data a ! bidx (B # replicate (length ds) 1) (B # ds) i)
                      (data b ! bidx (B # ds) (B # ds) i)) [0..<prod_list (B # ds)] =
        map (\<lambda>i. f (data a ! (i div prod_list ds)) (data b ! i)) [0..<B * prod_list ds]"
    by (rule map_cong) (simp_all add: bidx_alpha bidx_same del: bidx.simps)
  then show ?thesis
    unfolding tf_binop_def assms broadcast_shape_alpha option.case pa[unfolded assms]
      pb[unfolded assms]
    by simp
qed

lemma interpolate_entries:
  assumes "shape X = B # ds" "shape X_gen = B # ds"
    and "shape alpha = B # replicate (length ds) 1"
  shows "interpolate X X_gen alpha =
           Inr \<lparr> shape = B # ds,
                  data = map (\<lambda>i. data X ! i
                                   + data alpha ! (i div prod_list ds) * (data X_gen ! i - data X ! i))
                           [0..<B * prod_list ds] \<rparr>"
proof -
  let ?n = "B * prod_list ds"
  let ?diff = "\<lparr> shape = B # ds, data = map (\<lambda>i. data X_gen ! i - data X ! i) [0..<?n] \<rparr>"
  let ?scaled = "\<lparr> shape = B # ds,
                    data = map (\<lambda>i. data alpha ! (i div prod_list ds) * data ?diff ! i) [0..<?n] \<rparr>"
  have d: "tf_binop (-) X_gen X = Inr ?diff"
    using tf_binop_same_shape[OF assms(2) assms(1), of "(-)"] by simp
  have s: "tf_binop (*) alpha ?diff = Inr ?scaled"
    using tf_binop_alpha[of alpha B ds ?diff "(*)"] assms(3) by simp
  have i: "tf_binop (+) X ?scaled =
             Inr \<lparr> shape = B # ds, data = map (\<lambda>i. data X ! i + data ?scaled ! i) [0..<?n] \<rparr>"
    using tf_binop_same_shape[of X "B # ds" ?scaled "(+)"] assms(1) by simp
  have "map (\<lambda>i. data X ! i + data ?scaled ! i) [0..<?n] =
        map (\<lambda>i. data X ! i + data alpha ! (i div prod_list ds) * (data X_gen ! i - data X ! i))
          [0..<?n]"
    by (rule map_cong) simp_all
  then show ?thesis unfolding interpolate_def d sum.case s i by simp
qed



section \<open>One training step\<close>

lemma apply_generator_log: "log (apply_generator w g s) = log s @ [ApplyGenerator]"
  by (simp add: apply_generator_def split: prod.splits)

lemma apply_discriminator_log: "log (apply_discriminator w g s) = log s @ [ApplyDiscriminator]"
  by (simp add: apply_discriminator_def split: prod.splits)

lemma train_step_failure_keeps_state:
  assumes "train_step rt w s X0 tg td = (s', Inl e)"
  shows "s' = s\<lparr> draws := draws s' \<rparr>"
  using assms
  by (auto simp: train_step_def Let_def split: sum.splits if_splits)

lemma train_step_log:
  assumes "train_step rt w s X0 tg td = (s', Inr l)"
  shows "log s' = log s @ (if tg then [ApplyGenerator] else [])
                        @ (if td then [ApplyDiscriminator] else [])"
  using assms
  by (auto simp: train_step_def Let_def apply_generator_log apply_discriminator_log
           split: sum.splits if_splits)

lemma compute_losses_no_assertion: "compute_losses m a b c \<noteq> Inl AssertionError"
  by (auto simp: compute_losses_def reduce_sum_def Let_def split: option.splits sum.splits)

text \<open>
  Claim C4. Take a call of \<open>_train_step\<close> that gets as far as the discriminator: the
  batch and the generated batch fit the discriminator's input shape, and the two outputs
  \<open>d_real\<close> and \<open>d_fake\<close> have a last axis. The call raises AssertionError exactly when
  the last dimension of one of the two outputs is not 1, so with last dimension 1 the
  assertions cannot fail (the loss function is assumed to raise no AssertionError of its
  own). Whenever the call raises, for this or any other reason, no optimizer has been
  applied: variables, optimizer states and log are those before the call.
\<close>

theorem train_step_assertions:
  assumes "reshape X0 (d_in_data_shape w) = Inr X"
    and "shape_first X = Inr b"
    and "reshape (generator w (gen_variables s) (random_uniform rt (draws s) [b, z_dim w] (- 1) 1))
           (d_in_data_shape w) = Inr X_gen"
    and "d_real = discriminator w (disc_variables s) X"
    and "d_fake = discriminator w (disc_variables s) X_gen"
    and "shape d_real \<noteq> []" and "shape d_fake \<noteq> []"
    and "\<forall>m a b c. fn_compute_loss w m a b c \<noteq> Inl AssertionError"
  shows "(snd (train_step rt w s X0 tg td) = Inl AssertionError)
           = (last (shape d_real) \<noteq> 1 \<or> last (shape d_fake) \<noteq> 1)
         \<and> (isl (snd (train_step rt w s X0 tg td)) \<longrightarrow>
              gen_variables (fst (train_step rt w s X0 tg td)) = gen_variables s \<and>
              disc_variables (fst (train_step rt w s X0 tg td)) = disc_variables s \<and>
              gen_opt_state (fst (train_step rt w s X0 tg td)) = gen_opt_state s \<and>
              disc_opt_state (fst (train_step rt w s X0 tg td)) = disc_opt_state s \<and>
              log (fst (train_step rt w s X0 tg td)) = log s)"
proof
  have no_assert: "interpolate X X_gen a \<noteq> Inl AssertionError" for a
    by (auto simp: interpolate_def tf_binop_def split: sum.splits option.splits)
  show "(snd (train_step rt w s X0 tg td) = Inl AssertionError)
           = (last (shape d_real) \<noteq> 1 \<or> last (shape d_fake) \<noteq> 1)"
    using assms no_assert
    by (auto simp: train_step_def Let_def shape_last_def split: sum.splits)
next
  obtain s' r where res: "train_step rt w s X0 tg td = (s', r)"
    by (cases "train_step rt w s X0 tg td")
  show "isl (snd (train_step rt w s X0 tg td)) \<longrightarrow>
              gen_variables (fst (train_step rt w s X0 tg td)) = gen_variables s \<and>
              disc_variables (fst (train_step rt w s X0 tg td)) = disc_variables s \<and>
              gen_opt_state (fst (train_step rt w s X0 tg td)) = gen_opt_state s \<and>
              disc_opt_state (fst (train_step rt w s X0 tg td)) = disc_opt_state s \<and>
              log (fst (train_step rt w s X0 tg td)) = log s"
  proof
    assume "isl (snd (train_step rt w s X0 tg td))"
    then obtain e where "train_step rt w s X0 tg td = (s', Inl e)"
      using res by (cases r) auto
    from train_step_failure_keeps_state[OF this] res
    have "s' = s\<lparr> draws := draws s' \<rparr>" by simp
    then have "gen_variables s' = gen_variables s \<and> disc_variables s' = disc_variables s \<and>
               gen_opt_state s' = gen_opt_state s \<and> disc_opt_state s' = disc_opt_state s \<and>
               log s' = log s"
      by (metis train_state.select_convs train_state.surjective train_state.update_convs(5))
    then show "gen_variables (fst (train_step rt w s X0 tg td)) = gen_variables s \<and>
              disc_variables (fst (train_step rt w s X0 tg td)) = disc_variables s \<and>
              gen_opt_state (fst (train_step rt w s X0 tg td)) = gen_opt_state s \<and>
              disc_opt_state (fst (train_step rt w s X0 tg td)) = disc_opt_state s \<and>
              log (fst (train_step rt w s X0 tg td)) = log s"
      using res by simp
  qed
qed

theorem train_step_assertions_witness:
  "reshape batch_real (d_in_data_shape wide_model) = Inr batch_real \<and>
   shape_first batch_real = Inr 2 \<and>
   reshape (generator wide_model (gen_variables initial_state)
              (random_uniform zero_runtime (draws initial_state) [2, z_dim wide_model] (- 1) 1))
     (d_in_data_shape wide_model) = Inr batch_generated \<and>
   shape (discriminator wide_model (disc_variables initial_state) batch_real) \<noteq> [] \<and>
   shape (discriminator wide_model (disc_variables initial_state) batch_generated) \<noteq> [] \<and>
   (\<forall>m a b c. fn_compute_loss wide_model m a b c \<noteq> Inl AssertionError) \<and>
   last (shape (discriminator wide_model (disc_variables initial_state) batch_real)) \<noteq> 1 \<and>
   snd (train_step zero_runtime wide_model initial_state batch_real True True)
     = Inl AssertionError \<and>
   gen_variables (fst (train_step zero_runtime wide_model initial_state batch_real True True)) = [] \<and>
   disc_variables (fst (train_step zero_runtime wide_model initial_state batch_real True True)) = [] \<and>
   log (fst (train_step zero_runtime wide_model initial_state batch_real True True)) = []"
proof -
  have h1: "reshape batch_real (d_in_data_shape wide_model) = Inr batch_real"
    by (simp add: reshape_def resolve_shape_def wide_model_def batch_real_def)
  have h2: "shape_first batch_real = Inr 2"
    by (simp add: shape_first_def batch_real_def)
  have h3: "reshape (generator wide_model (gen_variables initial_state)
              (random_uniform zero_runtime (draws initial_state) [2, z_dim wide_model] (- 1) 1))
     (d_in_data_shape wide_model) = Inr batch_generated"
    by (simp add: reshape_def resolve_shape_def wide_model_def batch_generated_def)
  have h6: "shape (discriminator wide_model (disc_variables initial_state) batch_real) \<noteq> []"
    and h7: "shape (discriminator wide_model (disc_variables initial_state) batch_generated) \<noteq> []"
    and wide: "last (shape (discriminator wide_model (disc_variables initial_state) batch_real)) \<noteq> 1"
    by (simp_all add: wide_model_def zero_tensor_def)
  have h8: "\<forall>m a b c. fn_compute_loss wide_model m a b c \<noteq> Inl AssertionError"
    by (simp add: wide_model_def compute_losses_no_assertion)
  from train_step_assertions[OF h1 h2 h3 refl refl h6 h7 h8, of True True] wide
  have "snd (train_step zero_runtime wide_model initial_state batch_real True True)
          = Inl AssertionError"
     and "gen_variables (fst (train_step zero_runtime wide_model initial_state batch_real True True))
          = gen_variables initial_state"
     and "disc_variables (fst (train_step zero_runtime wide_model initial_state batch_real True True))
          = disc_variables initial_state"
     and "log (fst (train_step zero_runtime wide_model initial_state batch_real True True))
          = log initial_state"
    by simp_all
  then show ?thesis using h1 h2 h3 h6 h7 h8 wide by (simp add: initial_state_def)
qed

section \<open>The training loop\<close>

subsection \<open>The dataset pipeline\<close>

lemma shuffle_emit_Nil: "shuffle_emit pick i [] rest = []"
  by (subst shuffle_emit.simps) simp

lemma shuffle_emit_last:
  "buf \<noteq> [] \<Longrightarrow>
   shuffle_emit pick i buf [] =
     buf ! (pick i mod length buf)
       # shuffle_emit pick (Suc i)
           (take (pick i mod length buf) buf @ drop (Suc (pick i mod length buf)) buf) []"
  by (subst shuffle_emit.simps) (simp add: Let_def)

lemma shuffle_emit_next:
  "buf \<noteq> [] \<Longrightarrow>
   shuffle_emit pick i buf (x # rest) =
     buf ! (pick i mod length buf)
       # shuffle_emit pick (Suc i) (buf[pick i mod length buf := x]) rest"
  by (subst shuffle_emit.simps) (simp add: Let_def)

lemma length_shuffle_emit:
  "(buf = [] \<longrightarrow> rest = []) \<Longrightarrow>
   length (shuffle_emit pick i buf rest) = length buf + length rest"
proof (induction pick i buf rest rule: shuffle_emit.induct)
  case (1 pick i buf rest)
  show ?case
  proof (cases "buf = []")
    case True
    then show ?thesis using "1.prems" by (simp add: shuffle_emit_Nil)
  next
    case False
    define j where "j = pick i mod length buf"
    have j: "j < length buf" using False by (simp add: j_def)
    show ?thesis
    proof (cases rest)
      case Nil
      have "length (shuffle_emit pick (Suc i) (take j buf @ drop (Suc j) buf) []) =
            length (take j buf @ drop (Suc j) buf) + length ([] :: 'a list)"
        using "1.IH"(1)[OF False j_def Nil] by simp
      also have "\<dots> = length buf - 1" using j by simp
      finally show ?thesis
        using j unfolding Nil shuffle_emit_last[OF False] j_def[symmetric] by simp
    next
      case (Cons x rest')
      have "length (shuffle_emit pick (Suc i) (buf[j := x]) rest') =
            length (buf[j := x]) + length rest'"
        using "1.IH"(2)[OF False j_def Cons] False by simp
      then show ?thesis
        unfolding Cons shuffle_emit_next[OF False] j_def[symmetric] by simp
    qed
  qed
qed

lemma set_shuffle_emit:
  "set (shuffle_emit pick i buf rest) \<subseteq> set buf \<union> set rest"
proof (induction pick i buf rest rule: shuffle_emit.induct)
  case (1 pick i buf rest)
  show ?case
  proof (cases "buf = []")
    case True
    then show ?thesis by (simp add: shuffle_emit_Nil)
  next
    case False
    define j where "j = pick i mod length buf"
    have j: "j < length buf" using False by (simp add: j_def)
    then have bj: "buf ! j \<in> set buf" by simp
    show ?thesis
    proof (cases rest)
      case Nil
      have "set (take j buf @ drop (Suc j) buf) \<subseteq> set buf"
        using set_take_subset[of j buf] set_drop_subset[of "Suc j" buf] by auto
      moreover have "set (shuffle_emit pick (Suc i) (take j buf @ drop (Suc j) buf) [])
                       \<subseteq> set (take j buf @ drop (Suc j) buf) \<union> set []"
        by (rule "1.IH"(1)[OF False j_def Nil])
      ultimately show ?thesis
        using bj unfolding Nil shuffle_emit_last[OF False] j_def[symmetric] by auto
    next
      case (Cons x rest')
      have "set (buf[j := x]) \<subseteq> insert x (set buf)"
        by (rule set_update_subset_insert)
      moreover have "set (shuffle_emit pick (Suc i) (buf[j := x]) rest')
                       \<subseteq> set (buf[j := x]) \<union> set rest'"
        by (rule "1.IH"(2)[OF False j_def Cons])
      ultimately show ?thesis
        using bj unfolding Cons shuffle_emit_next[OF False] j_def[symmetric] by auto
    qed
  qed
qed

lemma length_shuffle: "0 < n \<Longrightarrow> length (shuffle pick n xs) = length xs"
  unfolding shuffle_def by (subst length_shuffle_emit) auto

lemma set_shuffle: "set (shuffle pick n xs) \<subseteq> set xs"
proof -
  have "set (take n xs) \<union> set (drop n xs) = set xs"
    by (metis append_take_drop_id set_append)
  then show ?thesis
    unfolding shuffle_def using set_shuffle_emit[of pick 0 "take n xs" "drop n xs"] by simp
qed

lemma chunk_Nil: "chunk n [] = []"
  by (subst chunk.simps) simp

lemma chunk_Cons:
  "0 < n \<Longrightarrow> xs \<noteq> [] \<Longrightarrow> chunk n xs = take n xs # chunk n (drop n xs)"
  by (subst chunk.simps) simp

lemma ceil_div_step:
  assumes "0 < (n::nat)" "0 < m"
  shows "(m + n - 1) div n = Suc ((m - n + n - 1) div n)"
proof (cases "n \<le> m")
  case True
  have e: "m + n - 1 = (m - 1) + n" using assms by simp
  have "((m - 1) + n) div n = (m - 1) div n + 1" using assms by (intro div_add_self2) simp
  then have "((m - 1) + n) div n = Suc ((m - 1) div n)" by simp
  then have "(m + n - 1) div n = Suc ((m - 1) div n)" unfolding e .
  moreover have "m - n + n - 1 = m - 1" using True by simp
  ultimately show ?thesis by simp
next
  case False
  then have a: "m - n + n - 1 = n - 1" by simp
  have e: "m + n - 1 = (m - 1) + n" using assms by simp
  have "((m - 1) + n) div n = (m - 1) div n + 1" using assms by (intro div_add_self2) simp
  then have "((m - 1) + n) div n = Suc ((m - 1) div n)" by simp
  moreover have "(m - 1) div n = 0" using False by simp
  ultimately have "(m + n - 1) div n = Suc 0" unfolding e by simp
  moreover have "(n - 1) div n = 0" using assms by simp
  ultimately show ?thesis unfolding a by simp
qed

lemma length_chunk: "0 < n \<Longrightarrow> length (chunk n xs) = (length xs + n - 1) div n"
proof (induction n xs rule: chunk.induct)
  case (1 n xs)
  show ?case
  proof (cases "xs = []")
    case True
    then show ?thesis using "1.prems" by (simp add: chunk_Nil)
  next
    case False
    have IH: "length (chunk n (drop n xs)) = (length xs - n + n - 1) div n"
      using "1.IH" "1.prems" False by simp
    have "(length xs + n - 1) div n = Suc ((length xs - n + n - 1) div n)"
      using "1.prems" False by (intro ceil_div_step) simp_all
    then show ?thesis
      unfolding chunk_Cons[OF "1.prems" False] using IH by simp
  qed
qed

lemma chunk_elements:
  "c \<in> set (chunk n xs) \<Longrightarrow> c \<noteq> [] \<and> set c \<subseteq> set xs"
proof (induction n xs rule: chunk.induct)
  case (1 n xs)
  show ?case
  proof (cases "n = 0 \<or> xs = []")
    case True
    then have "chunk n xs = []" by (subst chunk.simps) simp
    then show ?thesis using "1.prems" by simp
  next
    case False
    then have "chunk n xs = take n xs # chunk n (drop n xs)" by (simp add: chunk_Cons)
    then have "c = take n xs \<or> c \<in> set (chunk n (drop n xs))"
      using "1.prems" by simp
    then show ?thesis
    proof
      assume "c = take n xs"
      then show ?thesis using False by (auto dest: in_set_takeD)
    next
      assume "c \<in> set (chunk n (drop n xs))"
      then have "c \<noteq> [] \<and> set c \<subseteq> set (drop n xs)" using "1.IH" False by blast
      then show ?thesis by (auto dest: in_set_dropD)
    qed
  qed
qed

lemma length_slices: "length (slices t) = hd (shape t)"
  by (simp add: slices_def)

lemma length_dataset:
  assumes "0 < batch_size w" "0 < buffer_size w"
  shows "length (dataset rt w epoch) =
           (hd (shape (raw_dataset w)) * generator_training_ratio w + batch_size w - 1)
             div batch_size w"
proof -
  let ?passes = "map (\<lambda>k. shuffle (shuffle_pick rt (epoch * generator_training_ratio w + k))
                               (buffer_size w) (slices (raw_dataset w)))
                     [0..<generator_training_ratio w]"
  have "length (concat ?passes) = sum_list (map length ?passes)"
    by (simp add: length_concat)
  also have "map length ?passes =
             map (\<lambda>k. hd (shape (raw_dataset w))) [0..<generator_training_ratio w]"
    using assms(2) by (simp add: length_shuffle length_slices o_def)
  also have "sum_list \<dots> = hd (shape (raw_dataset w)) * generator_training_ratio w"
    by (simp add: sum_list_triv)
  finally show ?thesis
    using assms(1) by (simp add: dataset_def length_chunk)
qed

text \<open>The events of steps \<open>i\<close>, \<open>i + 1\<close>, ... of an epoch that runs without exception.\<close>

lemma train_batches_result:
  assumes "train_batches rt w s i X Bs = (s', X', None)"
  shows "log s' = log s @ concat (map (\<lambda>j. ApplyDiscriminator
                                   # (if j mod generator_training_ratio w = 0
                                      then [ApplyGenerator] else []))
                              [i..<i + length Bs])
         \<and> X' = (if Bs = [] then X else Some (last Bs))"
  using assms
proof (induction Bs arbitrary: s i X)
  case Nil
  then show ?case by simp
next
  case (Cons B Bs)
  let ?r = "generator_training_ratio w"
  obtain s1 r1 where st1: "train_step rt w s B False True = (s1, r1)"
    by (cases "train_step rt w s B False True")
  from Cons.prems st1 obtain l1 where r1: "r1 = Inr l1" by (cases r1) auto
  have log1: "log s1 = log s @ [ApplyDiscriminator]"
    using train_step_log[OF st1[unfolded r1]] by simp
  have rpos: "?r \<noteq> 0" using Cons.prems st1 r1 by (auto split: if_splits)
  have "[i..<i + Suc (length Bs)] = i # [Suc i..<i + Suc (length Bs)]"
    by (rule upt_conv_Cons) simp
  then have upt: "[i..<i + length (B # Bs)] = i # [Suc i..<Suc i + length Bs]"
    by (simp del: upt_Suc)
  show ?case
  proof (cases "i mod ?r = 0")
    case True
    obtain s2 r2 where st2: "train_step rt w s1 B True False = (s2, r2)"
      by (cases "train_step rt w s1 B True False")
    from Cons.prems st1 r1 rpos True st2 obtain l2 where r2: "r2 = Inr l2"
      by (cases r2) auto
    have log2: "log s2 = log s1 @ [ApplyGenerator]"
      using train_step_log[OF st2[unfolded r2]] by simp
    have "train_batches rt w s2 (Suc i) (Some B) Bs = (s', X', None)"
      using Cons.prems st1 r1 rpos True st2 r2 by simp
    from Cons.IH[OF this] show ?thesis
      unfolding upt using True log1 log2 by simp
  next
    case False
    have "train_batches rt w s1 (Suc i) (Some B) Bs = (s', X', None)"
      using Cons.prems st1 r1 rpos False by simp
    from Cons.IH[OF this] show ?thesis
      unfolding upt using False log1 by simp
  qed
qed

lemma count_event_append: "count_event e (xs @ ys) = count_event e xs + count_event e ys"
  by (simp add: count_event_def)

lemma count_discriminator_steps:
  "count_event ApplyDiscriminator
     (concat (map (\<lambda>j. ApplyDiscriminator # (if j mod r = 0 then [ApplyGenerator] else [])) js))
   = length js"
  by (induction js) (simp_all add: count_event_def)

lemma count_generator_steps:
  "count_event ApplyGenerator
     (concat (map (\<lambda>j. ApplyDiscriminator # (if j mod r = 0 then [ApplyGenerator] else [])) js))
   = length (filter (\<lambda>j. j mod r = 0) js)"
  by (induction js) (simp_all add: count_event_def)

lemma count_other_steps:
  assumes "e \<noteq> ApplyDiscriminator" "e \<noteq> ApplyGenerator"
  shows "count_event e
     (concat (map (\<lambda>j. ApplyDiscriminator # (if j mod r = 0 then [ApplyGenerator] else [])) js))
   = 0"
  using assms by (induction js) (simp_all add: count_event_def)

lemma multiples_up_to: "length (filter (\<lambda>j. j mod r = 0) [Suc 0..<Suc n]) = n div r"
  by (induction n) (simp_all add: div_Suc)

lemma train_batches_counts:
  assumes "train_batches rt w s 1 X Bs = (s', X', None)"
  shows "count_event ApplyDiscriminator (log s') =
           count_event ApplyDiscriminator (log s) + length Bs"
    and "count_event ApplyGenerator (log s') =
           count_event ApplyGenerator (log s) + length Bs div generator_training_ratio w"
    and "e \<noteq> ApplyDiscriminator \<Longrightarrow> e \<noteq> ApplyGenerator \<Longrightarrow>
           count_event e (log s') = count_event e (log s)"
  using train_batches_result[OF assms]
  by (simp_all add: count_event_append count_discriminator_steps count_generator_steps
        count_other_steps multiples_up_to del: upt_Suc)

subsection \<open>The batches of the dataset\<close>

lemma slices_valid:
  assumes "valid t" "shape t = n # ds" "sl \<in> set (slices t)"
  shows "shape sl = ds \<and> length (data sl) = prod_list ds"
proof -
  from assms(3) obtain b where b: "b < n"
    and sl: "sl = \<lparr> shape = tl (shape t), data = example_entries t b \<rparr>"
    unfolding slices_def using assms(2) by auto
  have len: "length (data t) = n * prod_list ds"
    using assms(1,2) by (simp add: valid_def)
  have "b * prod_list ds + prod_list ds \<le> n * prod_list ds"
    using b by (rule block_in_range)
  then have "length (example_entries t b) = prod_list ds"
    unfolding example_entries_def Let_def using assms(2) len by simp
  then show ?thesis using sl assms(2) by simp
qed

lemma length_concat_equal:
  assumes "\<forall>x\<in>set xs. length (f x) = p"
  shows "length (concat (map f xs)) = length xs * p"
  using assms by (induction xs) simp_all

lemma stack_valid:
  assumes "c \<noteq> []" "\<forall>sl\<in>set c. shape sl = ds \<and> length (data sl) = prod_list ds"
  shows "shape (stack c) = length c # ds \<and> length (data (stack c)) = length c * prod_list ds"
proof -
  have "hd c \<in> set c" using assms(1) by simp
  then have "shape (hd c) = ds" using assms(2) by blast
  moreover have "length (concat (map data c)) = length c * prod_list ds"
    using assms(2) by (intro length_concat_equal) simp
  ultimately show ?thesis by (simp add: stack_def)
qed

lemma dataset_batches:
  assumes "valid (raw_dataset w)" "shape (raw_dataset w) = n # ds"
    and "B \<in> set (dataset rt w epoch)"
  shows "\<exists>k>0. shape B = k # ds \<and> length (data B) = k * prod_list ds"
proof -
  let ?all = "concat (map (\<lambda>k. shuffle (shuffle_pick rt (epoch * generator_training_ratio w + k))
                               (buffer_size w) (slices (raw_dataset w)))
                     [0..<generator_training_ratio w])"
  from assms(3) obtain c where c: "c \<in> set (chunk (batch_size w) ?all)" and B: "B = stack c"
    unfolding dataset_def by auto
  from chunk_elements[OF c] have ne: "c \<noteq> []" and sub: "set c \<subseteq> set ?all" by simp_all
  have "set ?all \<subseteq> set (slices (raw_dataset w))"
    using set_shuffle by fastforce
  then have "\<forall>sl\<in>set c. shape sl = ds \<and> length (data sl) = prod_list ds"
    using sub slices_valid[OF assms(1,2)] by blast
  from stack_valid[OF ne this] ne show ?thesis unfolding B by auto
qed

subsection \<open>Steps that succeed\<close>

lemma train_batches_completes:
  assumes "generator_training_ratio w \<noteq> 0"
    and "\<forall>B\<in>set Bs. \<forall>s tg td. \<exists>s' l. train_step rt w s B tg td = (s', Inr l)"
  shows "\<exists>s' X'. train_batches rt w s i X Bs = (s', X', None)"
  using assms(2)
proof (induction Bs arbitrary: s i X)
  case Nil
  then show ?case by simp
next
  case (Cons B Bs)
  from Cons.prems obtain s1 l1 where st1: "train_step rt w s B False True = (s1, Inr l1)"
    by (meson list.set_intros(1))
  from Cons.prems obtain s2 l2 where st2: "train_step rt w s1 B True False = (s2, Inr l2)"
    by (meson list.set_intros(1))
  have rest: "\<forall>B\<in>set Bs. \<forall>s tg td. \<exists>s' l. train_step rt w s B tg td = (s', Inr l)"
    using Cons.prems by simp
  show ?case
    using Cons.IH[OF rest, of s2 "Suc i" "Some B"] Cons.IH[OF rest, of s1 "Suc i" "Some B"]
      st1 st2 assms(1)
    by simp
qed

lemma compute_losses_succeeds:
  assumes "input_gradient model interpolated = Some grad"
    and "length (shape grad) = length (model_d_in_data_shape model)"
  shows "\<exists>l. compute_losses model d_real d_fake interpolated = Inr l"
proof -
  have "\<not> list_ex (\<lambda>a. length (shape grad) \<le> a) [1..<length (model_d_in_data_shape model)]"
    using assms(2) by (simp add: list_ex_iff)
  then obtain t where "reduce_sum (tmap (\<lambda>x. x\<^sup>2) grad) [1..<length (model_d_in_data_shape model)] = Inr t"
    by (simp add: reduce_sum_def tmap_def)
  then show ?thesis
    unfolding compute_losses_def Let_def assms(1) by simp
qed

subsection \<open>The end-to-end scenario\<close>

lemma scenario_model_eq:
  "scenario_model base dir per_save =
     \<lparr> raw_dataset = zero_tensor [100, 1024],
        data_shape = [- 1, 1024],
        d_in_data_shape = [- 1, 1024, 1],
        generator = (\<lambda>v Z. zero_tensor [hd (shape Z), 1024]),
        discriminator = (\<lambda>v X. zero_tensor [hd (shape X), 1]),
        z_dim = 100,
        generator_optimizer = (\<lambda>opt grads vars. (opt, vars)),
        discriminator_optimizer = (\<lambda>opt grads vars. (opt, vars)),
        generator_training_ratio = 5,
        batch_size = 16,
        buffer_size = 1000,
        epochs = 1,
        epochs_per_save = per_save,
        fn_compute_loss = compute_losses,
        fn_save_examples = True,
        checkpoint_prefix = (if truthy dir then Some (path_join (the dir) ''ckpt'') else None),
        class_checkpoint_dir = base \<rparr>"
  by (simp add: scenario_model_def WGAN_init_def scenario_args_def zero_tensor_def)

lemma reshape_example_axis:
  assumes "length (data t) = k * 1024"
  shows "reshape t [- 1, 1024, 1] = Inr (t\<lparr> shape := [k, 1024, 1] \<rparr>)"
  using assms by (simp add: reshape_def resolve_shape_def)

lemma scenario_step:
  assumes "shape B = [k, 1024]" "length (data B) = k * 1024"
  shows "\<exists>s' l. train_step (scenario_runtime pick) (scenario_model base dir per_save) s B tg td
                  = (s', Inr l)"
proof -
  let ?w = "scenario_model base dir per_save"
  let ?rt = "scenario_runtime pick"
  let ?X = "B\<lparr> shape := [k, 1024, 1] \<rparr>"
  let ?G = "zero_tensor [k, 1024]"
  let ?X_gen = "?G\<lparr> shape := [k, 1024, 1] \<rparr>"
  let ?alpha = "zero_tensor [k, 1, 1]"
  have dims: "d_in_data_shape ?w = [- 1, 1024, 1]" by (simp add: scenario_model_eq)
  have r1: "reshape B (d_in_data_shape ?w) = Inr ?X"
    unfolding dims using assms(2) by (rule reshape_example_axis)
  have sf: "shape_first ?X = Inr k" by (simp add: shape_first_def)
  have Z: "random_uniform ?rt n sh lo hi = zero_tensor sh" for n sh lo hi
    by (simp add: scenario_runtime_def zero_runtime_def)
  have gen: "generator ?w v (zero_tensor [k, z_dim ?w]) = ?G" for v
    by (simp add: scenario_model_eq zero_tensor_def)
  have "length (data ?G) = k * 1024" by (simp add: zero_tensor_def)
  then have r2: "reshape ?G (d_in_data_shape ?w) = Inr ?X_gen"
    unfolding dims by (rule reshape_example_axis)
  have disc: "discriminator ?w v ?X = zero_tensor [k, 1]"
    "discriminator ?w v ?X_gen = zero_tensor [k, 1]" for v
    by (simp_all add: scenario_model_eq)
  have sl: "shape_last (zero_tensor [k, 1]) = Inr 1"
    by (simp add: shape_last_def zero_tensor_def)
  have ash: "alpha_shape (d_in_data_shape ?w) k = [k, 1, 1]"
    unfolding dims by (simp add: alpha_shape_def)
  have "shape ?alpha = k # replicate (length [1024, 1::nat]) 1"
    by (simp add: zero_tensor_def numeral_2_eq_2)
  from interpolate_entries[of ?X k "[1024, 1]" ?X_gen ?alpha, OF _ _ this]
  obtain interp where ip: "interpolate ?X ?X_gen ?alpha = Inr interp"
    and ish: "shape interp = [k, 1024, 1]"
    by simp
  have grad: "input_gradient (loss_model_of ?rt ?w s) interp = Some (zero_tensor [k, 1024, 1])"
    by (simp add: loss_model_of_def scenario_runtime_def zero_runtime_def ish)
  have "length (shape (zero_tensor [k, 1024, 1]))
          = length (model_d_in_data_shape (loss_model_of ?rt ?w s))"
    by (simp add: loss_model_of_def dims zero_tensor_def)
  from compute_losses_succeeds[OF grad this]
  obtain l where cl: "compute_losses (loss_model_of ?rt ?w s) (zero_tensor [k, 1])
                        (zero_tensor [k, 1]) interp = Inr l"
    by blast
  have fl: "fn_compute_loss ?w = compute_losses" by (simp add: scenario_model_eq)
  show ?thesis
    unfolding train_step_def r1 sum.case sf Z gen r2 Let_def disc sl ash ip fl cl
      HOL.simp_thms if_False
    by blast
qed


lemma scenario_dataset_length:
  "length (dataset rt (scenario_model base dir per_save) epoch) = 32"
proof -
  let ?w = "scenario_model base dir per_save"
  have "0 < batch_size ?w" "0 < buffer_size ?w" by (simp_all add: scenario_model_eq)
  from length_dataset[OF this, of rt epoch] show ?thesis
    by (simp add: scenario_model_eq zero_tensor_def)
qed

lemma scenario_batches:
  assumes "B \<in> set (dataset rt (scenario_model base dir per_save) epoch)"
  shows "\<exists>k. shape B = [k, 1024] \<and> length (data B) = k * 1024"
proof -
  let ?w = "scenario_model base dir per_save"
  have "valid (raw_dataset ?w)" "shape (raw_dataset ?w) = 100 # [1024]"
    by (simp_all add: scenario_model_eq zero_tensor_def valid_def)
  from dataset_batches[OF this assms] show ?thesis by auto
qed

lemma scenario_epoch:
  "\<exists>s' X'. train_batches (scenario_runtime pick) (scenario_model base dir per_save) s 1 X
              (dataset (scenario_runtime pick) (scenario_model base dir per_save) epoch)
            = (s', Some X', None)
          \<and> log s' = log s @ scenario_steps"
proof -
  let ?w = "scenario_model base dir per_save"
  let ?rt = "scenario_runtime pick"
  let ?Bs = "dataset ?rt ?w epoch"
  have ratio: "generator_training_ratio ?w = 5" by (simp add: scenario_model_eq)
  have "\<forall>B\<in>set ?Bs. \<forall>s tg td. \<exists>s' l. train_step ?rt ?w s B tg td = (s', Inr l)"
    using scenario_batches scenario_step by blast
  from train_batches_completes[OF _ this, of s 1 X] ratio
  obtain s' X' where tb: "train_batches ?rt ?w s 1 X ?Bs = (s', X', None)" by auto
  have len: "length ?Bs = 32" by (rule scenario_dataset_length)
  then have ne: "?Bs \<noteq> []" by auto
  have e: "1 + length ?Bs = 33" unfolding len by simp
  from train_batches_result[OF tb]
  have "log s' = log s @ scenario_steps" and "X' = Some (last ?Bs)"
    unfolding scenario_steps_def e ratio using ne by simp_all
  then show ?thesis using tb by blast
qed

lemma scenario_train:
  "\<exists>s1 X1. log s1 = SaveExamples 0 # scenario_steps \<and>
     train (scenario_runtime pick) (scenario_model base dir per_save) initial_state =
       (case save_checkpoint (scenario_model base dir per_save) s1 0 of
          (s2, Some e) \<Rightarrow> (s2, Some e)
        | (s2, None) \<Rightarrow>
            (generate_and_save_examples (scenario_model base dir per_save) s2 1 X1, None))"
proof -
  let ?w = "scenario_model base dir per_save"
  let ?rt = "scenario_runtime pick"
  let ?s0 = "generate_and_save_examples ?w initial_state 0
               (leading_slice (batch_size ?w) (raw_dataset ?w))"
  have l0: "log ?s0 = [SaveExamples 0]"
    by (simp add: generate_and_save_examples_def scenario_model_eq initial_state_def)
  from scenario_epoch[of pick base dir per_save ?s0 None 0]
  obtain s1 X1 where tb: "train_batches ?rt ?w ?s0 1 None (dataset ?rt ?w 0) = (s1, Some X1, None)"
    and l1: "log s1 = log ?s0 @ scenario_steps" by blast
  have ep: "[0..<epochs ?w] = [0]" by (simp add: scenario_model_eq)
  have "train ?rt ?w initial_state =
          (case save_checkpoint ?w s1 0 of
             (s2, Some e) \<Rightarrow> (s2, Some e)
           | (s2, None) \<Rightarrow> (generate_and_save_examples ?w s2 1 X1, None))"
    unfolding train_def ep train_epochs.simps tb
    by (simp split: prod.splits option.splits)
  moreover have "log s1 = SaveExamples 0 # scenario_steps" using l1 l0 by simp
  ultimately show ?thesis by blast
qed

lemma generate_and_save_examples_log:
  "log (generate_and_save_examples w s epoch X) =
     log s @ (if fn_save_examples w then [SaveExamples epoch] else [])"
  by (simp add: generate_and_save_examples_def)

text \<open>The four courses of the scenario, by what \<open>self.checkpoint_dir\<close> evaluates to.\<close>

lemma scenario_train_no_attribute:
  "\<exists>s. log s = SaveExamples 0 # scenario_steps \<and>
     train (scenario_runtime pick) (scenario_model None dir per_save) initial_state
       = (s, Some AttributeError)"
  using scenario_train[of pick None dir per_save]
  by (auto simp: save_checkpoint_def scenario_model_eq)

lemma scenario_train_no_save:
  assumes "\<not> truthy d \<or> (per_save \<noteq> 0 \<and> 1 mod per_save \<noteq> 0)"
  shows "\<exists>s. log s = SaveExamples 0 # scenario_steps @ [SaveExamples 1] \<and>
     train (scenario_runtime pick) (scenario_model (Some d) dir per_save) initial_state
       = (s, None)"
proof -
  let ?w = "scenario_model (Some d) dir per_save"
  from scenario_train[of pick "Some d" dir per_save]
  obtain s1 X1 where l1: "log s1 = SaveExamples 0 # scenario_steps"
    and tr: "train (scenario_runtime pick) ?w initial_state =
       (case save_checkpoint ?w s1 0 of
          (s2, Some e) \<Rightarrow> (s2, Some e)
        | (s2, None) \<Rightarrow> (generate_and_save_examples ?w s2 1 X1, None))" by blast
  have sc: "save_checkpoint ?w s1 0 = (s1, None)"
    using assms by (auto simp: save_checkpoint_def scenario_model_eq)
  have "log (generate_and_save_examples ?w s1 1 X1) = SaveExamples 0 # scenario_steps @ [SaveExamples 1]"
    by (simp add: generate_and_save_examples_log l1 scenario_model_eq)
  then show ?thesis unfolding tr sc by simp
qed

lemma scenario_train_save:
  assumes "truthy d" "truthy dir"
  shows "\<exists>s. log s = SaveExamples 0 # scenario_steps
                       @ [CheckpointSave (path_join (the dir) ''ckpt''), SaveExamples 1] \<and>
     train (scenario_runtime pick) (scenario_model (Some d) dir 1) initial_state = (s, None)"
proof -
  let ?w = "scenario_model (Some d) dir 1"
  from scenario_train[of pick "Some d" dir 1]
  obtain s1 X1 where l1: "log s1 = SaveExamples 0 # scenario_steps"
    and tr: "train (scenario_runtime pick) ?w initial_state =
       (case save_checkpoint ?w s1 0 of
          (s2, Some e) \<Rightarrow> (s2, Some e)
        | (s2, None) \<Rightarrow> (generate_and_save_examples ?w s2 1 X1, None))" by blast
  let ?s2 = "s1\<lparr> log := log s1 @ [CheckpointSave (path_join (the dir) ''ckpt'')] \<rparr>"
  have sc: "save_checkpoint ?w s1 0 = (?s2, None)"
    using assms by (simp add: save_checkpoint_def scenario_model_eq)
  have "log (generate_and_save_examples ?w ?s2 1 X1) =
          SaveExamples 0 # scenario_steps
            @ [CheckpointSave (path_join (the dir) ''ckpt''), SaveExamples 1]"
    by (simp add: generate_and_save_examples_log l1 scenario_model_eq)
  then show ?thesis unfolding tr sc by simp
qed

lemma scenario_train_no_checkpoint_object:
  assumes "truthy d" "\<not> truthy dir"
  shows "\<exists>s. log s = SaveExamples 0 # scenario_steps \<and>
     train (scenario_runtime pick) (scenario_model (Some d) dir 1) initial_state
       = (s, Some AttributeError)"
  using scenario_train[of pick "Some d" dir 1] assms
  by (auto simp: save_checkpoint_def scenario_model_eq)


lemma checkpoints_append: "checkpoints (xs @ ys) = checkpoints xs @ checkpoints ys"
  by (simp add: checkpoints_def)

lemma exports_steps:
  "exports (concat (map (\<lambda>j. ApplyDiscriminator # (if j mod r = 0 then [ApplyGenerator] else [])) js))
     = []"
  by (induction js) (simp_all add: exports_def)

lemma checkpoints_steps:
  "checkpoints (concat (map (\<lambda>j. ApplyDiscriminator # (if j mod r = 0 then [ApplyGenerator] else [])) js))
     = []"
  by (induction js) (simp_all add: checkpoints_def)

lemma scenario_steps_counts:
  "count_event ApplyDiscriminator scenario_steps = 32"
  "count_event ApplyGenerator scenario_steps = 6"
  "exports scenario_steps = []"
  "checkpoints scenario_steps = []"
proof -
  have e: "[1..<33] = [Suc 0..<Suc 32]" by simp
  show "count_event ApplyDiscriminator scenario_steps = 32"
    unfolding scenario_steps_def count_discriminator_steps by simp
  show "count_event ApplyGenerator scenario_steps = 6"
    unfolding scenario_steps_def count_generator_steps e multiples_up_to by simp
  show "exports scenario_steps = []"
    unfolding scenario_steps_def by (rule exports_steps)
  show "checkpoints scenario_steps = []"
    unfolding scenario_steps_def by (rule checkpoints_steps)
qed




lemma checkpoints_Cons:
  "checkpoints (x # xs) = (case x of CheckpointSave p \<Rightarrow> [p] | _ \<Rightarrow> []) @ checkpoints xs"
  by (simp add: checkpoints_def)


lemma checkpoints_Nil: "checkpoints [] = []"
  by (simp add: checkpoints_def)

section \<open>The update schedule of an epoch\<close>

text \<open>
  Claim C2. Take a model built by the constructor and one epoch of \<open>train\<close>, that is the
  loop over the batches of the dataset from step 1 on, running without exception. It applies
  the discriminator's optimizer once per batch, \<open>D\<close> times for the
  \<open>D = ceil(N * ratio / batch_size)\<close> batches of the \<open>N\<close> examples, and the generator's
  optimizer \<open>G = D div ratio\<close> times: once per full group of \<open>ratio\<close> steps, and not for
  a last group of fewer steps. \<open>D\<close> is \<open>ratio * G\<close> exactly when the ratio divides the
  number of batches.
\<close>

theorem epoch_update_ratio:
  assumes "WGAN_init base a = Inr w"
    and "snd (snd (train_batches rt w s 1 X (dataset rt w epoch))) = None"
  shows "let s' = fst (train_batches rt w s 1 X (dataset rt w epoch));
             D = count_event ApplyDiscriminator (log s') - count_event ApplyDiscriminator (log s);
             G = count_event ApplyGenerator (log s') - count_event ApplyGenerator (log s)
         in D = (hd (shape (raw_dataset w)) * generator_training_ratio w + batch_size w - 1)
                  div batch_size w
            \<and> G = D div generator_training_ratio w
            \<and> (D = generator_training_ratio w * G) = (generator_training_ratio w dvd D)"
proof -
  let ?Bs = "dataset rt w epoch"
  obtain s' X' where tb: "train_batches rt w s 1 X ?Bs = (s', X', None)"
    using assms(2) by (cases "train_batches rt w s 1 X ?Bs") auto
  have "0 < batch_size w" "0 < buffer_size w"
    using assms(1) by (auto simp: WGAN_init_def split: if_splits)
  from length_dataset[OF this]
  have len: "length ?Bs = (hd (shape (raw_dataset w)) * generator_training_ratio w
                             + batch_size w - 1) div batch_size w" .
  have D: "count_event ApplyDiscriminator (log s') - count_event ApplyDiscriminator (log s)
             = length ?Bs"
    using train_batches_counts(1)[OF tb] by simp
  have G: "count_event ApplyGenerator (log s') - count_event ApplyGenerator (log s)
             = length ?Bs div generator_training_ratio w"
    using train_batches_counts(2)[OF tb] by simp
  have "(n = r * (n div r)) = (r dvd n)" for n r :: nat
    by (metis dvd_mult_div_cancel dvd_triv_left)
  then show ?thesis unfolding Let_def tb fst_conv D G len by simp
qed

theorem epoch_update_ratio_witness:
  "WGAN_init (Some None) (scenario_args None 10) = Inr (scenario_model (Some None) None 10)
   \<and> snd (snd (train_batches (scenario_runtime (\<lambda>p i. 0)) (scenario_model (Some None) None 10)
                 initial_state 1 None
                 (dataset (scenario_runtime (\<lambda>p i. 0)) (scenario_model (Some None) None 10) 0)))
       = None
   \<and> (let s' = fst (train_batches (scenario_runtime (\<lambda>p i. 0))
                     (scenario_model (Some None) None 10) initial_state 1 None
                     (dataset (scenario_runtime (\<lambda>p i. 0)) (scenario_model (Some None) None 10) 0));
           D = count_event ApplyDiscriminator (log s')
                 - count_event ApplyDiscriminator (log initial_state);
           G = count_event ApplyGenerator (log s') - count_event ApplyGenerator (log initial_state)
       in D = 32 \<and> G = 6 \<and> D \<noteq> 5 * G)"
proof -
  let ?rt = "scenario_runtime (\<lambda>p i. 0)"
  let ?w = "scenario_model (Some None) None 10"
  have h1: "WGAN_init (Some None) (scenario_args None 10) = Inr ?w"
    by (simp add: scenario_model_def WGAN_init_def scenario_args_def zero_tensor_def)
  obtain s' X' where tb: "train_batches ?rt ?w initial_state 1 None (dataset ?rt ?w 0)
                            = (s', Some X', None)"
    using scenario_epoch[of "\<lambda>p i. 0" "Some None" None 10 initial_state None 0] by blast
  have h2: "snd (snd (train_batches ?rt ?w initial_state 1 None (dataset ?rt ?w 0))) = None"
    unfolding tb by simp
  have n: "hd (shape (raw_dataset ?w)) = 100" "generator_training_ratio ?w = 5"
    "batch_size ?w = 16"
    by (simp_all add: scenario_model_eq zero_tensor_def)
  from epoch_update_ratio[OF h1 h2] h1 h2 show ?thesis
    by (simp add: Let_def n)
qed

theorem epoch_updates_not_a_multiple_counterexample:
  "snd (snd (train_batches (scenario_runtime (\<lambda>p i. 0)) (scenario_model (Some None) None 10)
                 initial_state 1 None
                 (dataset (scenario_runtime (\<lambda>p i. 0)) (scenario_model (Some None) None 10) 0)))
       = None
   \<and> count_event ApplyDiscriminator
        (log (fst (train_batches (scenario_runtime (\<lambda>p i. 0)) (scenario_model (Some None) None 10)
                 initial_state 1 None
                 (dataset (scenario_runtime (\<lambda>p i. 0)) (scenario_model (Some None) None 10) 0))))
     \<noteq> generator_training_ratio (scenario_model (Some None) None 10)
        * count_event ApplyGenerator
           (log (fst (train_batches (scenario_runtime (\<lambda>p i. 0))
                 (scenario_model (Some None) None 10) initial_state 1 None
                 (dataset (scenario_runtime (\<lambda>p i. 0)) (scenario_model (Some None) None 10) 0))))"
proof -
  let ?rt = "scenario_runtime (\<lambda>p i. 0)"
  let ?w = "scenario_model (Some None) None 10"
  obtain s' X' where tb: "train_batches ?rt ?w initial_state 1 None (dataset ?rt ?w 0)
                            = (s', Some X', None)"
    and l: "log s' = log initial_state @ scenario_steps"
    using scenario_epoch[of "\<lambda>p i. 0" "Some None" None 10 initial_state None 0] by blast
  have "log s' = scenario_steps" using l by (simp add: initial_state_def)
  then show ?thesis
    unfolding tb by (simp add: scenario_steps_counts scenario_model_eq)
qed

section \<open>The end-to-end scenario\<close>




section \<open>Checkpoints\<close>

text \<open>
  Claim C7. \<open>train\<close> decides on \<open>self.checkpoint_dir\<close>, an attribute the constructor
  never assigns: the directory given to the constructor only decides whether
  \<open>checkpoint\<close> and \<open>checkpoint_prefix\<close> exist. Run the scenario with a save cadence of
  one epoch. When the base class defines no \<open>checkpoint_dir\<close>, the run ends with
  AttributeError after the first epoch and saves nothing, with the directory
  \<open>ckpts\<close> configured as well as with none. When the base class defines a value, that
  value decides for every object: if it is \<open>None\<close> or empty, the run with the directory
  \<open>ckpts\<close> configured completes and saves nothing; otherwise the run with no directory
  configured tries to save and ends with AttributeError.
\<close>

theorem train_reads_unassigned_checkpoint_dir:
  "let configured = train (scenario_runtime pick) (scenario_model base (Some ''ckpts'') 1)
                      initial_state;
       ephemeral = train (scenario_runtime pick) (scenario_model base None 1) initial_state
   in case base of
        None \<Rightarrow> snd configured = Some AttributeError \<and> checkpoints (log (fst configured)) = []
                 \<and> snd ephemeral = Some AttributeError
      | Some d \<Rightarrow>
          if truthy d then snd ephemeral = Some AttributeError
          else snd configured = None \<and> checkpoints (log (fst configured)) = []"
proof (cases base)
  case None
  from scenario_train_no_attribute[of pick "Some ''ckpts''" 1]
  obtain s where "log s = SaveExamples 0 # scenario_steps"
    and "train (scenario_runtime pick) (scenario_model None (Some ''ckpts'') 1) initial_state
           = (s, Some AttributeError)" by blast
  moreover from scenario_train_no_attribute[of pick None 1]
  obtain s' where
    "train (scenario_runtime pick) (scenario_model None None 1) initial_state
           = (s', Some AttributeError)" by blast
  ultimately show ?thesis
    unfolding None Let_def
    by (simp add: checkpoints_Cons scenario_steps_counts)
next
  case (Some d)
  show ?thesis
  proof (cases "truthy d")
    case True
    have "\<not> truthy None" by (simp add: truthy_def)
    from scenario_train_no_checkpoint_object[OF True this, of pick]
    show ?thesis unfolding Some Let_def using True by auto
  next
    case False
    then have "\<not> truthy d \<or> ((1::nat) \<noteq> 0 \<and> 1 mod (1::nat) \<noteq> 0)" by simp
    from scenario_train_no_save[OF this, of pick "Some ''ckpts''"]
    obtain s where l: "log s = SaveExamples 0 # scenario_steps @ [SaveExamples 1]"
      and "train (scenario_runtime pick) (scenario_model (Some d) (Some ''ckpts'') 1)
             initial_state = (s, None)" by blast
    moreover have "checkpoints (log s) = []"
      unfolding l
      by (simp add: checkpoints_Cons checkpoints_append checkpoints_Nil scenario_steps_counts)
    ultimately show ?thesis unfolding Some Let_def using False by simp
  qed
qed

theorem train_reads_unassigned_checkpoint_dir_witness:
  "snd (train (scenario_runtime (\<lambda>p i. 0)) (scenario_model None (Some ''ckpts'') 1)
          initial_state) = Some AttributeError
   \<and> checkpoints (log (fst (train (scenario_runtime (\<lambda>p i. 0))
                               (scenario_model None (Some ''ckpts'') 1) initial_state))) = []
   \<and> snd (train (scenario_runtime (\<lambda>p i. 0)) (scenario_model None None 1) initial_state)
       = Some AttributeError"
  using train_reads_unassigned_checkpoint_dir[of "\<lambda>p i. 0" None]
  by (simp add: Let_def)

end
